theory Spec2Isabelle
  imports Main "HOL-Library.Word"
begin

section \<open>Priority queue (resmgr/queue/priority.go)\<close>

subsection \<open>Task items and the multi-level list\<close>

text \<open>
  Go's \<open>int64\<close> is a 64-bit two's complement word: \<open>+\<close> and \<open>-\<close> wrap, comparisons
  are signed (\<open>word_sle\<close>, \<open>word_sless\<close>), \<open>sint\<close> reads the value.
\<close>

type_synonym int64 = "64 word"

datatype queue_error = Empty | QueueLimitReached

text \<open>
  Modelled from the spec: the declaration of \<open>TaskItem\<close> is not part of priority.go.
  The spec gives a priority task item as \<open>{priority: int, payload: opaque}\<close>; the
  payload is kept as a string. \<open>emptyTaskItem\<close> is Go's zero value \<open>&TaskItem{}\<close>.
\<close>

record TaskItem =
  Priority :: int
  payload :: string

definition emptyTaskItem :: TaskItem where
  "emptyTaskItem = \<lparr>Priority = 0, payload = []\<rparr>"

text \<open>
  The result of \<open>GetHighestLevel\<close>: a priority, or the sentinel below every priority
  that an empty list reports.
\<close>

datatype level = MinusInf | Lvl int

text \<open>
  Modelled from the spec: \<open>MultiLevelList\<close> (multi_level_list.go) is not among the
  sources; priority.go only calls \<open>NewMultiLevelList\<close>, \<open>Push\<close>, \<open>Pop\<close>,
  \<open>GetHighestLevel\<close> and \<open>Len\<close>. The spec: a mapping from priority to an ordered
  sequence of items plus a sorted index of the non-empty priorities; \<open>Push\<close> appends and
  registers a newly non-empty priority; \<open>Pop\<close> removes the head, deregisters a level
  that becomes empty and fails with \<open>Empty\<close> when there is no element;
  \<open>GetHighestLevel\<close> is the maximal non-empty priority or the sentinel; \<open>Len\<close> is the
  length of a level, 0 when absent. Each operation is atomic (one mutex).
\<close>

record 'a MultiLevelList =
  mapLists :: "int \<Rightarrow> 'a list"
  levelIndex :: "int list"

definition NewMultiLevelList :: "'a MultiLevelList" where
  "NewMultiLevelList = \<lparr>mapLists = (\<lambda>_. []), levelIndex = []\<rparr>"

definition Push :: "int \<Rightarrow> 'a \<Rightarrow> 'a MultiLevelList \<Rightarrow> 'a MultiLevelList" where
  "Push p x l =
     l\<lparr>mapLists := (mapLists l)(p := mapLists l p @ [x]),
       levelIndex := (if mapLists l p = [] then insort p (levelIndex l) else levelIndex l)\<rparr>"

fun Pop :: "level \<Rightarrow> 'a MultiLevelList \<Rightarrow> queue_error + ('a \<times> 'a MultiLevelList)" where
  "Pop MinusInf l = Inl Empty"
| "Pop (Lvl p) l =
     (case mapLists l p of
        [] \<Rightarrow> Inl Empty
      | x # xs \<Rightarrow>
          Inr (x, l\<lparr>mapLists := (mapLists l)(p := xs),
                    levelIndex := (if xs = [] then removeAll p (levelIndex l)
                                   else levelIndex l)\<rparr>))"

definition GetHighestLevel :: "'a MultiLevelList \<Rightarrow> level" where
  "GetHighestLevel l =
     (case levelIndex l of [] \<Rightarrow> MinusInf | p # ps \<Rightarrow> Lvl (fold max ps p))"

definition LenLevel :: "int \<Rightarrow> 'a MultiLevelList \<Rightarrow> int" where
  "LenLevel p l = int (length (mapLists l p))"

text \<open>The sum of the level lengths, taken along the index.\<close>

definition totalLen :: "'a MultiLevelList \<Rightarrow> int" where
  "totalLen l = (\<Sum>p\<leftarrow>levelIndex l. LenLevel p l)"

text \<open>
  The invariant of the multi-level list: the index is sorted, lists every non-empty
  priority once, and an empty level carries no index entry.
\<close>

definition mll_inv :: "'a MultiLevelList \<Rightarrow> bool" where
  "mll_inv l \<longleftrightarrow>
     sorted (levelIndex l) \<and> distinct (levelIndex l) \<and>
     set (levelIndex l) = {p. mapLists l p \<noteq> []}"

subsection \<open>The queue\<close>

record PriorityQueue =
  list :: "TaskItem MultiLevelList"
  limit :: int64
  count :: int64

definition NewPriorityQueue :: "int64 \<Rightarrow> PriorityQueue" where
  "NewPriorityQueue lim = \<lparr>list = NewMultiLevelList, limit = lim, count = 0\<rparr>"

text \<open>
  \<open>Enqueue\<close> holds the queue's lock from entry to return, so it is one atomic step.
  The argument is a non-nil pointer (a nil one panics at \<open>ti.Priority\<close>).
\<close>

definition Enqueue :: "TaskItem \<Rightarrow> PriorityQueue \<Rightarrow> queue_error option \<times> PriorityQueue" where
  "Enqueue ti f =
     (if word_sle (limit f) (count f) then (Some QueueLimitReached, f)
      else (None, f\<lparr>list := Push (Priority ti) ti (list f), count := count f + 1\<rparr>))"

text \<open>
  \<open>Dequeue\<close> calls the list three times or more without holding the queue's lock, so
  other goroutines can change the list between its calls. An interference schedule
  gives, for each such point in turn, the list operations other goroutines perform
  there; an exhausted schedule means no further interference, and the empty schedule
  is the sequential run. Interference is followed on the list only, which is all that
  \<open>Dequeue\<close> reads between its calls.
\<close>

datatype 'a list_op = OpPush int 'a | OpPop level

fun applyOp :: "'a list_op \<Rightarrow> 'a MultiLevelList \<Rightarrow> 'a MultiLevelList" where
  "applyOp (OpPush p x) l = Push p x l"
| "applyOp (OpPop lv) l = (case Pop lv l of Inl _ \<Rightarrow> l | Inr (_, l') \<Rightarrow> l')"

definition interfere :: "'a list_op list \<Rightarrow> 'a MultiLevelList \<Rightarrow> 'a MultiLevelList" where
  "interfere os l = fold applyOp os l"

fun burst :: "'a list_op list list \<Rightarrow> 'a list_op list" where
  "burst [] = []"
| "burst (b # _) = b"

text \<open>
  The retry loop of \<open>Dequeue\<close>,
  \<^verbatim>\<open>for highestPriority != f.list.GetHighestLevel() {
      highestPriority = f.list.GetHighestLevel()
      item, err = f.list.Pop(highestPriority)
      if err == nil { break }
  }\<close>
  It returns the level last tried, the last value of \<open>err\<close> (\<open>None\<close> is nil) and the
  list. Interference can happen before the peek of the loop condition, before the peek
  of the body and before the pop.
\<close>

function retryLoop ::
  "level \<Rightarrow> queue_error \<Rightarrow> 'a MultiLevelList \<Rightarrow> 'a list_op list list \<Rightarrow>
   level \<times> queue_error option \<times> 'a MultiLevelList" where
  "retryLoop hp err l sch =
     (let l1 = interfere (burst sch) l in
      if hp \<noteq> GetHighestLevel l1 then
        (let l2 = interfere (burst (tl sch)) l1;
             hp' = GetHighestLevel l2;
             l3 = interfere (burst (tl (tl sch))) l2
         in case Pop hp' l3 of
              Inr (item, l4) \<Rightarrow> (hp', None, l4)
            | Inl err' \<Rightarrow> retryLoop hp' err' l3 (tl (tl (tl sch))))
      else (hp, Some err, l1))"
  by pat_completeness auto
termination
proof (relation "measure (\<lambda>(hp, err, l, sch).
          2 * length sch + (if hp \<noteq> GetHighestLevel (interfere (burst sch) l) then 1 else 0))",
       goal_cases)
  case 1
  show ?case by simp
next
  case (2 hp err l sch l1 l2 hp' l3 err')
  show ?case
  proof (cases sch)
    case Nil
    with 2 show ?thesis by (simp add: interfere_def)
  next
    case (Cons b rest)
    then show ?thesis by (cases rest) auto
  qed
qed

declare retryLoop.simps [simp del]

text \<open>
  \<open>Dequeue\<close>: peek, pop, and on a failed pop the retry loop, after which the function
  returns \<open>&TaskItem{}, err\<close> whatever the loop obtained. Only the path of a first pop
  that succeeds takes the lock and decrements \<open>count\<close>. (Only non-nil items are ever
  pushed, so the \<open>item == nil\<close> branch is not taken.)
\<close>

definition DequeueI ::
  "TaskItem list_op list list \<Rightarrow> PriorityQueue \<Rightarrow>
   (TaskItem \<times> queue_error option) \<times> PriorityQueue" where
  "DequeueI sch f =
     (let highestPriority = GetHighestLevel (list f);
          l1 = interfere (burst sch) (list f)
      in case Pop highestPriority l1 of
           Inl err \<Rightarrow>
             (case retryLoop highestPriority err l1 (tl sch) of
                (_, err', l') \<Rightarrow> ((emptyTaskItem, err'), f\<lparr>list := l'\<rparr>))
         | Inr (item, l2) \<Rightarrow> ((item, None), f\<lparr>list := l2, count := count f - 1\<rparr>))"

definition Dequeue :: "PriorityQueue \<Rightarrow> (TaskItem \<times> queue_error option) \<times> PriorityQueue" where
  "Dequeue f = DequeueI [] f"

definition Len :: "PriorityQueue \<Rightarrow> int \<Rightarrow> int" where
  "Len f priority = LenLevel priority (list f)"

text \<open>Sequential histories: operations run one after the other from a new queue.\<close>

datatype pq_op = Enq TaskItem | Deq

fun pq_step :: "pq_op \<Rightarrow> PriorityQueue \<Rightarrow> PriorityQueue" where
  "pq_step (Enq ti) f = snd (Enqueue ti f)"
| "pq_step Deq f = snd (Dequeue f)"

definition pq_run :: "pq_op list \<Rightarrow> PriorityQueue \<Rightarrow> PriorityQueue" where
  "pq_run os f = fold pq_step os f"

text \<open>
  The invariant of the queue between operations: the list is well formed, \<open>count\<close> is
  the sum of the level lengths and does not exceed \<open>limit\<close>.
\<close>

definition pq_inv :: "PriorityQueue \<Rightarrow> bool" where
  "pq_inv f \<longleftrightarrow> mll_inv (list f) \<and> sint (count f) = totalLen (list f) \<and> sint (count f) \<le> sint (limit f)"

text \<open>Example states used to evaluate the operations on concrete inputs.\<close>

definition oneItemQueue :: PriorityQueue where
  "oneItemQueue = pq_run [Enq \<lparr>Priority = 5, payload = ''a''\<rparr>] (NewPriorityQueue 10)"

definition emptiedList :: "TaskItem MultiLevelList" where
  "emptiedList = \<lparr>mapLists = (\<lambda>_. [])(5 := [], 3 := []), levelIndex = []\<rparr>"

definition twoLevelQueue :: PriorityQueue where
  "twoLevelQueue = pq_run [Enq \<lparr>Priority = 5, payload = ''a''\<rparr>, Enq \<lparr>Priority = 3, payload = ''b''\<rparr>]
           (NewPriorityQueue 10)"

section \<open>Worker pool (common/async/pool.go)\<close>

text \<open>
  Go's \<open>int\<close> is kept as \<open>int\<close>: the pool only assigns worker counts and decrements
  \<open>numWorkers\<close> when it exceeds \<open>options.MaxWorkers\<close>, so nothing can overflow.
\<close>

definition DefaultMaxWorkers :: int where
  "DefaultMaxWorkers = 4"

record PoolOptions =
  MaxWorkers :: int

text \<open>
  \<open>Pool\<close>. The job queue is the list of the jobs waiting (the spec: an unbounded
  FIFO), \<open>jobs\<close> is the counter of the wait group, and \<open>liveWorkers\<close> counts the
  goroutines running \<open>runWorker\<close> that have not returned; it is not a field of the
  struct.
\<close>

record 'j Pool =
  options :: PoolOptions
  queue :: "'j list"
  numWorkers :: int
  jobs :: int
  liveWorkers :: nat

text \<open>\<open>NewPool\<close> spawns \<open>MaxWorkers\<close> workers, one per round of its loop.\<close>

definition NewPool :: "PoolOptions \<Rightarrow> 'j Pool" where
  "NewPool o1 =
     (let o2 = (if MaxWorkers o1 \<le> 0 then o1\<lparr>MaxWorkers := DefaultMaxWorkers\<rparr> else o1)
      in \<lparr>options = o2, queue = [], numWorkers = MaxWorkers o2, jobs = 0,
          liveWorkers = nat (MaxWorkers o2)\<rparr>)"

text \<open>
  \<open>SetMaxWorkers\<close>: under the lock \<open>oldNum := p.numWorkers; p.numWorkers = num\<close>, then
  \<open>for i := oldNum; i < num; i++ { go p.runWorker() }\<close>.
\<close>

definition SetMaxWorkers :: "int \<Rightarrow> 'j Pool \<Rightarrow> 'j Pool" where
  "SetMaxWorkers num0 p =
     (let num = (if num0 \<le> 0 then DefaultMaxWorkers else num0);
          oldNum = numWorkers p
      in p\<lparr>numWorkers := num, liveWorkers := liveWorkers p + nat (num - oldNum)\<rparr>)"

definition PoolEnqueue :: "'j \<Rightarrow> 'j Pool \<Rightarrow> 'j Pool" where
  "PoolEnqueue job p = p\<lparr>jobs := jobs p + 1, queue := queue p @ [job]\<rparr>"

definition shouldWorkerStop :: "'j Pool \<Rightarrow> bool \<times> 'j Pool" where
  "shouldWorkerStop p =
     (if numWorkers p > MaxWorkers (options p) then (True, p\<lparr>numWorkers := numWorkers p - 1\<rparr>)
      else (False, p))"

text \<open>
  One iteration of the loop of \<open>runWorker\<close> by some live worker: it returns when
  \<open>shouldWorkerStop\<close> says so, and otherwise takes the next job (or waits for one), runs
  it and calls \<open>jobs.Done()\<close>. Without a live worker nothing happens.
\<close>

datatype 'j worker_event = NoWorker | Stopped | Blocked | Ran 'j

definition runWorkerIteration :: "'j Pool \<Rightarrow> 'j worker_event \<times> 'j Pool" where
  "runWorkerIteration p =
     (if liveWorkers p = 0 then (NoWorker, p)
      else
        (case shouldWorkerStop p of
           (True, p1) \<Rightarrow> (Stopped, p1\<lparr>liveWorkers := liveWorkers p1 - 1\<rparr>)
         | (False, p1) \<Rightarrow>
             (case queue p1 of
                [] \<Rightarrow> (Blocked, p1)
              | job # rest \<Rightarrow> (Ran job, p1\<lparr>queue := rest, jobs := jobs p1 - 1\<rparr>))))"

fun runWorkerIterations :: "nat \<Rightarrow> 'j Pool \<Rightarrow> 'j worker_event list \<times> 'j Pool" where
  "runWorkerIterations 0 p = ([], p)"
| "runWorkerIterations (Suc k) p =
     (case runWorkerIteration p of
        (e, p1) \<Rightarrow> (case runWorkerIterations k p1 of (es, p2) \<Rightarrow> (e # es, p2)))"

section \<open>Mesos plugin (pkg/hostmgr/p2k/plugins/mesos/mesos.go)\<close>

subsection \<open>Messages\<close>

text \<open>
  Protobuf messages are kept with the fields the plugin reads or writes. A field that
  is a pointer is an \<open>option\<close> (\<open>None\<close> is nil); a message whose only field is
  \<open>Value\<close> (\<open>AgentID\<close>, \<open>TaskID\<close>, \<open>OfferID\<close>, \<open>PodID\<close>) is the option of that value.
  The generated getters are nil-safe: on nil they return the zero value.
\<close>

type_synonym AgentID = "string option"

definition GetValue :: "string option \<Rightarrow> string" where
  "GetValue v = (case v of None \<Rightarrow> [] | Some s \<Rightarrow> s)"

datatype plugin_error = InternalError string | CollaboratorError string

record 'r Offer =
  offer_Id :: string
  offer_AgentId :: AgentID
  offer_Resources :: "'r list"

record 'i TaskInfo =
  task_TaskId :: string
  task_AgentId :: AgentID
  task_rest :: 'i

record 'c LaunchableTask =
  lt_TaskId :: string
  lt_Config :: 'c
  lt_Id :: string

record 's LaunchablePod =
  PodId :: "string option"
  Spec :: 's

datatype Call_Type = Call_ACCEPT | Call_KILL | Call_ACKNOWLEDGE

datatype Offer_Operation_Type = Offer_Operation_LAUNCH

record 'i Offer_Operation =
  op_Type :: Offer_Operation_Type
  op_Launch :: "'i TaskInfo list"

record 'i Call_Accept =
  OfferIds :: "string list"
  Operations :: "'i Offer_Operation list"

record Call_Acknowledge =
  ack_AgentId :: string
  ack_TaskId :: string
  ack_Uuid :: string

record 'i Call =
  FrameworkId :: string
  Type :: Call_Type
  Accept :: "'i Call_Accept option"
  Kill :: "string option"
  Acknowledge :: "Call_Acknowledge option"

text \<open>The pod event published downstream (\<open>pbpod.PodEvent\<close> inside \<open>scalar.PodEvent\<close>).\<close>

record pbPodEvent =
  pe_PodId :: string
  ActualState :: string
  Timestamp :: string
  AgentId :: string
  Hostname :: string
  Message :: string
  Reason :: string
  Healthy :: string

datatype PodEventType = UpdatePod

record PodEvent =
  Event :: pbPodEvent
  EventType :: PodEventType
  EventID :: string

text \<open>
  The task status of an \<open>UPDATE\<close> event. The task state, the reason and the
  timestamp (a \<open>float64\<close>) are kept opaque; their getters' zero values are parameters.
\<close>

record ('st, 'rs, 'ts) TaskStatus =
  status_TaskId :: "string option"
  status_State :: "'st option"
  status_Message :: "string option"
  status_Reason :: "'rs option"
  status_AgentId :: AgentID
  status_Timestamp :: "'ts option"
  status_Uuid :: string
  status_Healthy :: "bool option"

record ('st, 'rs, 'ts) Event_Update =
  Status :: "('st, 'rs, 'ts) TaskStatus option"

definition GetStatus ::
  "('st, 'rs, 'ts) Event_Update option \<Rightarrow> ('st, 'rs, 'ts) TaskStatus option" where
  "GetStatus evt = (case evt of None \<Rightarrow> None | Some e \<Rightarrow> Status e)"

definition GetHealthy :: "('st, 'rs, 'ts) TaskStatus option \<Rightarrow> bool" where
  "GetHealthy s = (case s of None \<Rightarrow> False | Some t \<Rightarrow>
                     (case status_Healthy t of None \<Rightarrow> False | Some b \<Rightarrow> b))"

definition GetAgentId :: "('st, 'rs, 'ts) TaskStatus option \<Rightarrow> AgentID" where
  "GetAgentId s = (case s of None \<Rightarrow> None | Some t \<Rightarrow> status_AgentId t)"

definition GetTaskId :: "('st, 'rs, 'ts) TaskStatus option \<Rightarrow> string option" where
  "GetTaskId s = (case s of None \<Rightarrow> None | Some t \<Rightarrow> status_TaskId t)"

definition GetMessage :: "('st, 'rs, 'ts) TaskStatus option \<Rightarrow> string" where
  "GetMessage s = (case s of None \<Rightarrow> [] | Some t \<Rightarrow> GetValue (status_Message t))"

definition GetUuid :: "('st, 'rs, 'ts) TaskStatus option \<Rightarrow> string" where
  "GetUuid s = (case s of None \<Rightarrow> [] | Some t \<Rightarrow> status_Uuid t)"

text \<open>
  Functions of other packages that \<open>buildPodEventFromMesosTaskStatus\<close> calls, and
  the zero values of the opaque fields: \<open>util.MesosStateToPelotonState\<close>,
  \<open>api.ConvertTaskStateToPodState(...).String()\<close>, \<open>util.FormatTime\<close> with the
  layout \<open>time.RFC3339Nano\<close>, and \<open>Reason.String()\<close>.
\<close>

record ('st, 'rs, 'ts, 'ps) status_fns =
  TaskState_zero :: 'st
  Reason_zero :: 'rs
  Timestamp_zero :: 'ts
  MesosStateToPelotonState :: "'st \<Rightarrow> 'ps"
  ConvertTaskStateToPodState :: "'ps \<Rightarrow> string"
  FormatTime :: "'ts \<Rightarrow> string"
  Reason_String :: "'rs \<Rightarrow> string"

definition GetState :: "('st, 'rs, 'ts, 'ps) status_fns \<Rightarrow> ('st, 'rs, 'ts) TaskStatus option \<Rightarrow> 'st" where
  "GetState F s = (case s of None \<Rightarrow> TaskState_zero F | Some t \<Rightarrow>
                     (case status_State t of None \<Rightarrow> TaskState_zero F | Some x \<Rightarrow> x))"

definition GetReason :: "('st, 'rs, 'ts, 'ps) status_fns \<Rightarrow> ('st, 'rs, 'ts) TaskStatus option \<Rightarrow> 'rs" where
  "GetReason F s = (case s of None \<Rightarrow> Reason_zero F | Some t \<Rightarrow>
                     (case status_Reason t of None \<Rightarrow> Reason_zero F | Some x \<Rightarrow> x))"

definition GetTimestamp :: "('st, 'rs, 'ts, 'ps) status_fns \<Rightarrow> ('st, 'rs, 'ts) TaskStatus option \<Rightarrow> 'ts" where
  "GetTimestamp F s = (case s of None \<Rightarrow> Timestamp_zero F | Some t \<Rightarrow>
                     (case status_Timestamp t of None \<Rightarrow> Timestamp_zero F | Some x \<Rightarrow> x))"

definition HEALTH_STATE_HEALTHY :: string where
  "HEALTH_STATE_HEALTHY = ''HEALTH_STATE_HEALTHY''"

definition HEALTH_STATE_UNHEALTHY :: string where
  "HEALTH_STATE_UNHEALTHY = ''HEALTH_STATE_UNHEALTHY''"

definition buildPodEventFromMesosTaskStatus ::
  "('st, 'rs, 'ts, 'ps) status_fns \<Rightarrow> ('st, 'rs, 'ts) Event_Update option \<Rightarrow> PodEvent" where
  "buildPodEventFromMesosTaskStatus F evt =
     (let healthy = (if GetHealthy (GetStatus evt) then HEALTH_STATE_HEALTHY
                     else HEALTH_STATE_UNHEALTHY);
          taskState = MesosStateToPelotonState F (GetState F (GetStatus evt))
      in \<lparr>Event =
            \<lparr>pe_PodId = GetValue (GetTaskId (GetStatus evt)),
             ActualState = ConvertTaskStateToPodState F taskState,
             Timestamp = FormatTime F (GetTimestamp F (GetStatus evt)),
             AgentId = GetValue (GetAgentId (GetStatus evt)),
             Hostname = GetValue (GetAgentId (GetStatus evt)),
             Message = GetMessage (GetStatus evt),
             Reason = Reason_String F (GetReason F (GetStatus evt)),
             Healthy = healthy\<rparr>,
          EventType = UpdatePod,
          EventID = GetUuid (GetStatus evt)\<rparr>)"

subsection \<open>Offer manager\<close>

text \<open>
  Modelled from the spec: the offer manager (\<open>newOfferManager\<close>, \<open>GetOffers\<close>,
  \<open>RemoveOfferForHost\<close>, \<open>Clear\<close>) is not among the sources. The spec: a host bucket
  is a mapping from offer id to offer; \<open>GetOffers(host)\<close> returns the current mapping
  for a host, \<open>RemoveOfferForHost(host)\<close> removes the entire bucket, \<open>Clear\<close> drops
  all state, and an empty bucket is removed from the manager. A bucket is an
  association list: its order is the order in which Go's \<open>range\<close> happens to visit
  the map, which the language leaves open.
\<close>

record 'r offerManager =
  hostOffers :: "string \<Rightarrow> (string \<times> 'r Offer) list"

definition newOfferManager :: "'r offerManager" where
  "newOfferManager = \<lparr>hostOffers = (\<lambda>_. [])\<rparr>"

definition GetOffers :: "string \<Rightarrow> 'r offerManager \<Rightarrow> (string \<times> 'r Offer) list" where
  "GetOffers hostname om = hostOffers om hostname"

definition RemoveOfferForHost :: "string \<Rightarrow> 'r offerManager \<Rightarrow> 'r offerManager" where
  "RemoveOfferForHost hostname om = om\<lparr>hostOffers := (hostOffers om)(hostname := [])\<rparr>"

definition Clear :: "'r offerManager \<Rightarrow> 'r offerManager" where
  "Clear om = om\<lparr>hostOffers := (\<lambda>_. [])\<rparr>"

text \<open>A bucket as the offer manager keeps it: every offer under its own id, once.\<close>

definition bucket_ok :: "(string \<times> 'r Offer) list \<Rightarrow> bool" where
  "bucket_ok offers \<longleftrightarrow>
     distinct (map fst offers) \<and> list_all (\<lambda>(k, offer). k = offer_Id offer) offers"

subsection \<open>The manager\<close>

record metrics =
  LaunchPod :: int
  LaunchPodFail :: int
  TaskUpdateAck :: int
  TaskUpdateAckDeDupe :: int
  TaskUpdateCounter :: int

text \<open>
  The program point of a goroutine running \<open>ackPodEventWorker\<close>: each constructor is
  the next access to shared state (the channel, the \<open>sync.Map\<close>, the scheduler client).
\<close>

datatype ack_worker =
    AtReceive
  | AtLoad PodEvent
  | AtStore PodEvent
  | AtCall PodEvent
  | InCall PodEvent
  | AtDelete PodEvent

text \<open>
  \<open>MesosManager\<close>, with the fields the modelled methods use. \<open>sent\<close> (the calls made
  through \<open>schedulerClient\<close>, in order) and \<open>ackWorkers\<close> (the worker goroutines that
  were started) are not fields of the struct: they are the part of the environment the
  claims speak about. A channel is the list of its buffered elements.
\<close>

record ('i, 'r) MesosManager =
  podEventCh :: "PodEvent list"
  offerManager :: "'r offerManager"
  updateAckConcurrency :: int
  ackChannel :: "PodEvent list"
  ackStatusMap :: "string set"
  metrics :: metrics
  sent :: "'i Call list"
  ackWorkers :: "ack_worker list"

definition mesosTaskUpdateAckChanSize :: nat where
  "mesosTaskUpdateAckChanSize = 1000"

text \<open>
  \<open>NewMesosManager\<close> fills the struct literal; \<open>updateAckConcurrency\<close> and
  \<open>ackStatusMap\<close> are not mentioned there and get Go's zero values. The downstream pod
  event channel is passed in (its buffered content is \<open>ch\<close>).
\<close>

definition NewMesosManager :: "PodEvent list \<Rightarrow> ('i, 'r) MesosManager" where
  "NewMesosManager ch =
     \<lparr>podEventCh = ch,
      offerManager = newOfferManager,
      updateAckConcurrency = 0,
      ackChannel = [],
      ackStatusMap = {},
      metrics = \<lparr>LaunchPod = 0, LaunchPodFail = 0, TaskUpdateAck = 0,
                 TaskUpdateAckDeDupe = 0, TaskUpdateCounter = 0\<rparr>,
      sent = [],
      ackWorkers = []\<rparr>"

text \<open>
  \<open>startAsyncProcessTaskUpdates\<close>: \<open>for i := 0; i < m.updateAckConcurrency; i++\<close>
  starts one worker per round.
\<close>

definition startAsyncProcessTaskUpdates :: "('i, 'r) MesosManager \<Rightarrow> ('i, 'r) MesosManager" where
  "startAsyncProcessTaskUpdates m =
     m\<lparr>ackWorkers := ackWorkers m @ replicate (nat (updateAckConcurrency m)) AtReceive\<rparr>"

text \<open>
  \<open>Start\<close>: the registration of the procedures and the agent syncer touch nothing
  modelled here.
\<close>

definition Start :: "('i, 'r) MesosManager \<Rightarrow> ('i, 'r) MesosManager" where
  "Start m = startAsyncProcessTaskUpdates m"

text \<open>
  \<open>AckPodEvent\<close> sends on the buffered channel: with a free slot the event is
  appended, on a full channel the send blocks (\<open>None\<close>).
\<close>

definition AckPodEvent :: "PodEvent \<Rightarrow> ('i, 'r) MesosManager \<Rightarrow> ('i, 'r) MesosManager option" where
  "AckPodEvent event m =
     (if length (ackChannel m) < mesosTaskUpdateAckChanSize
      then Some (m\<lparr>ackChannel := ackChannel m @ [event]\<rparr>)
      else None)"

text \<open>The \<open>ACKNOWLEDGE\<close> message of \<open>acknowledgeTaskUpdate\<close>.\<close>

definition acknowledgeCall :: "string \<Rightarrow> PodEvent \<Rightarrow> 'i Call" where
  "acknowledgeCall frameworkId e =
     \<lparr>FrameworkId = frameworkId, Type = Call_ACKNOWLEDGE, Accept = None, Kill = None,
      Acknowledge = Some \<lparr>ack_AgentId = AgentId (Event e), ack_TaskId = pe_PodId (Event e),
                          ack_Uuid = EventID e\<rparr>\<rparr>"

text \<open>
  One step of worker \<open>i\<close> of \<open>ackPodEventWorker\<close>. A worker at \<open>AtReceive\<close> with an
  empty channel stays blocked. The response to the call (an error is only logged) moves
  the worker from \<open>InCall\<close> to \<open>AtDelete\<close>.
\<close>

definition ackPodEventWorker ::
  "string \<Rightarrow> nat \<Rightarrow> ('i, 'r) MesosManager \<Rightarrow> ('i, 'r) MesosManager" where
  "ackPodEventWorker frameworkId i m =
     (if i < length (ackWorkers m) then
        (case ackWorkers m ! i of
           AtReceive \<Rightarrow>
             (case ackChannel m of
                [] \<Rightarrow> m
              | pe # rest \<Rightarrow>
                  m\<lparr>ackChannel := rest,
                    ackWorkers := (ackWorkers m)[i := (if EventID pe = [] then AtReceive else AtLoad pe)]\<rparr>)
         | AtLoad pe \<Rightarrow>
             (if EventID pe \<in> ackStatusMap m
              then m\<lparr>metrics := (metrics m)\<lparr>TaskUpdateAckDeDupe := TaskUpdateAckDeDupe (metrics m) + 1\<rparr>,
                     ackWorkers := (ackWorkers m)[i := AtReceive]\<rparr>
              else m\<lparr>ackWorkers := (ackWorkers m)[i := AtStore pe]\<rparr>)
         | AtStore pe \<Rightarrow>
             m\<lparr>ackStatusMap := insert (EventID pe) (ackStatusMap m),
               ackWorkers := (ackWorkers m)[i := AtCall pe]\<rparr>
         | AtCall pe \<Rightarrow>
             m\<lparr>metrics := (metrics m)\<lparr>TaskUpdateAck := TaskUpdateAck (metrics m) + 1\<rparr>,
               sent := sent m @ [acknowledgeCall frameworkId pe],
               ackWorkers := (ackWorkers m)[i := InCall pe]\<rparr>
         | InCall pe \<Rightarrow> m\<lparr>ackWorkers := (ackWorkers m)[i := AtDelete pe]\<rparr>
         | AtDelete pe \<Rightarrow>
             m\<lparr>ackStatusMap := ackStatusMap m - {EventID pe},
               ackWorkers := (ackWorkers m)[i := AtReceive]\<rparr>)
      else m)"



text \<open>The event ids of the \<open>ACKNOWLEDGE\<close> calls in flight.\<close>

definition inFlight :: "('i, 'r) MesosManager \<Rightarrow> string list" where
  "inFlight m = concat (map (\<lambda>w. case w of InCall pe \<Rightarrow> [EventID pe] | _ \<Rightarrow> []) (ackWorkers m))"

text \<open>
  Runs of the plugin's acknowledgement path: callers of \<open>AckPodEvent\<close> and steps of the
  workers, interleaved in any order. A caller whose send blocks leaves the state as it
  is.
\<close>

datatype ack_action = DoAckPodEvent PodEvent | DoWorker nat

fun ack_step :: "string \<Rightarrow> ack_action \<Rightarrow> ('i, 'r) MesosManager \<Rightarrow> ('i, 'r) MesosManager" where
  "ack_step fid (DoAckPodEvent e) m = (case AckPodEvent e m of None \<Rightarrow> m | Some m' \<Rightarrow> m')"
| "ack_step fid (DoWorker i) m = ackPodEventWorker fid i m"

definition ack_run :: "string \<Rightarrow> ack_action list \<Rightarrow> ('i, 'r) MesosManager \<Rightarrow> ('i, 'r) MesosManager" where
  "ack_run fid as m = fold (ack_step fid) as m"

fun pushed :: "ack_action list \<Rightarrow> PodEvent list" where
  "pushed [] = []"
| "pushed (DoAckPodEvent e # as) = e # pushed as"
| "pushed (DoWorker i # as) = pushed as"

text \<open>
  \<open>Update\<close>, the callback for a task status update: the pod event built from the
  status is sent downstream. (The counter named after the task state is left out.)
\<close>

definition Update ::
  "('st, 'rs, 'ts, 'ps) status_fns \<Rightarrow> ('st, 'rs, 'ts) Event_Update option \<Rightarrow>
   ('i, 'r) MesosManager \<Rightarrow> ('i, 'r) MesosManager" where
  "Update F taskUpdate m =
     m\<lparr>podEventCh := podEventCh m @ [buildPodEventFromMesosTaskStatus F taskUpdate],
       metrics := (metrics m)\<lparr>TaskUpdateCounter := TaskUpdateCounter (metrics m) + 1\<rparr>\<rparr>"

subsection \<open>LaunchPods\<close>

text \<open>
  What \<open>LaunchPods\<close> calls outside mesos.go: \<open>api.ConvertPodSpecToTaskConfig\<close>,
  \<open>spec.GetPodName().GetValue()\<close>, the task builder (\<open>task.NewBuilder\<close> and
  \<open>builder.Build\<close>, which changes the builder), the framework info provider and the
  scheduler client, whose \<open>Call\<close> answers nil (\<open>None\<close>) or an error.
\<close>

record ('s, 'c, 'r, 'b, 'i) launch_fns =
  ConvertPodSpecToTaskConfig :: "'s \<Rightarrow> plugin_error + 'c"
  GetPodName :: "'s \<Rightarrow> string"
  NewBuilder :: "'r list \<Rightarrow> 'b"
  Build :: "'b \<Rightarrow> 'c LaunchableTask \<Rightarrow> plugin_error + ('i TaskInfo \<times> 'b)"
  GetFrameworkID :: string
  GetMesosStreamID :: string
  schedulerClient_Call :: "string \<Rightarrow> 'i Call \<Rightarrow> plugin_error option"

definition convertPodSpecToLaunchableTask ::
  "('s, 'c, 'r, 'b, 'i) launch_fns \<Rightarrow> string option \<Rightarrow> 's \<Rightarrow> plugin_error + 'c LaunchableTask" where
  "convertPodSpecToLaunchableTask D podId spec =
     (case ConvertPodSpecToTaskConfig D spec of
        Inl err \<Rightarrow> Inl err
      | Inr config \<Rightarrow>
          Inr \<lparr>lt_TaskId = GetValue podId, lt_Config = config, lt_Id = GetPodName D spec\<rparr>)"

text \<open>
  The loop over the pods: convert, build, set the agent id; the first error ends the
  function. (\<open>mesosTaskIds\<close> is collected by the source and never read.)
\<close>

fun buildTasks ::
  "('s, 'c, 'r, 'b, 'i) launch_fns \<Rightarrow> AgentID \<Rightarrow> 'b \<Rightarrow> 's LaunchablePod list \<Rightarrow>
   plugin_error + 'i TaskInfo list" where
  "buildTasks D agentID builder [] = Inr []"
| "buildTasks D agentID builder (pod # pods) =
     (case convertPodSpecToLaunchableTask D (PodId pod) (Spec pod) of
        Inl err \<Rightarrow> Inl err
      | Inr launchableTask \<Rightarrow>
          (case Build D builder launchableTask of
             Inl err \<Rightarrow> Inl err
           | Inr (mesosTask, builder') \<Rightarrow>
               (case buildTasks D agentID builder' pods of
                  Inl err \<Rightarrow> Inl err
                | Inr mesosTasks \<Rightarrow> Inr (mesosTask\<lparr>task_AgentId := agentID\<rparr> # mesosTasks))))"

definition noOfferError :: "string \<Rightarrow> plugin_error" where
  "noOfferError hostname = InternalError (''no offer found to launch pods on '' @ hostname)"

text \<open>\<open>offers[offerIds[0].GetValue()].GetAgentId()\<close>: a missing key reads as nil.\<close>

definition firstAgentId :: "(string \<times> 'r Offer) list \<Rightarrow> string list \<Rightarrow> AgentID" where
  "firstAgentId offers offerIds =
     (case map_of offers (hd offerIds) of None \<Rightarrow> None | Some offer \<Rightarrow> offer_AgentId offer)"

text \<open>The \<open>ACCEPT\<close> message: all offer ids and one \<open>LAUNCH\<close> operation with the tasks.\<close>

definition acceptCall :: "string \<Rightarrow> string list \<Rightarrow> 'i TaskInfo list \<Rightarrow> 'i Call" where
  "acceptCall frameworkId offerIds mesosTasks =
     \<lparr>FrameworkId = frameworkId, Type = Call_ACCEPT,
      Accept = Some \<lparr>OfferIds = offerIds,
                     Operations = [\<lparr>op_Type = Offer_Operation_LAUNCH, op_Launch = mesosTasks\<rparr>]\<rparr>,
      Kill = None, Acknowledge = None\<rparr>"

text \<open>
  \<open>LaunchPods\<close> returns the pods or an error, and the manager after the call. The
  call is logged in \<open>sent\<close> whether the scheduler client answers nil or an error.
\<close>

definition LaunchPods ::
  "('s, 'c, 'r, 'b, 'i) launch_fns \<Rightarrow> 's LaunchablePod list \<Rightarrow> string \<Rightarrow> ('i, 'r) MesosManager \<Rightarrow>
   (plugin_error + 's LaunchablePod list) \<times> ('i, 'r) MesosManager" where
  "LaunchPods D pods hostname m =
     (let offers = GetOffers hostname (offerManager m);
          offerIds = map (\<lambda>(_, offer). offer_Id offer) offers;
          mesosResources = concat (map (\<lambda>(_, offer). offer_Resources offer) offers)
      in if length offerIds = 0 then (Inl (noOfferError hostname), m)
         else
           (let builder = NewBuilder D mesosResources;
                agentID = firstAgentId offers offerIds
            in case buildTasks D agentID builder pods of
                 Inl err \<Rightarrow> (Inl err, m)
               | Inr mesosTasks \<Rightarrow>
                   (let msg = acceptCall (GetFrameworkID D) offerIds mesosTasks;
                        m1 = m\<lparr>sent := sent m @ [msg]\<rparr>
                    in case schedulerClient_Call D (GetMesosStreamID D) msg of
                         Some err \<Rightarrow>
                           (Inl err,
                            m1\<lparr>metrics := (metrics m1)\<lparr>LaunchPodFail := LaunchPodFail (metrics m1) + 1\<rparr>\<rparr>)
                       | None \<Rightarrow>
                           (Inr pods,
                            m1\<lparr>offerManager := RemoveOfferForHost hostname (offerManager m1),
                               metrics := (metrics m1)\<lparr>LaunchPod := LaunchPod (metrics m1) + 1\<rparr>\<rparr>))))"

subsection \<open>Example states of the plugin\<close>



definition startedManager :: "(unit, unit) MesosManager" where
  "startedManager = Start (NewMesosManager [])"




text \<open>A task status with agent id \<open>agent-7\<close>, and functions for the opaque parts.\<close>

definition exampleStatusFns :: "(nat, nat, nat, nat) status_fns" where
  "exampleStatusFns =
     \<lparr>TaskState_zero = 0, Reason_zero = 0, Timestamp_zero = 0,
      MesosStateToPelotonState = (\<lambda>s. s),
      ConvertTaskStateToPodState = (\<lambda>s. if s = 1 then ''POD_STATE_RUNNING'' else ''POD_STATE_INVALID''),
      FormatTime = (\<lambda>t. ''1970-01-01T00:00:00Z''),
      Reason_String = (\<lambda>r. ''REASON_COMMAND_EXECUTOR_FAILED'')\<rparr>"

definition exampleStatus :: "bool option \<Rightarrow> (nat, nat, nat) TaskStatus" where
  "exampleStatus healthy =
     \<lparr>status_TaskId = Some ''pod-1'', status_State = Some 1, status_Message = None,
      status_Reason = None, status_AgentId = Some ''agent-7'', status_Timestamp = Some 5,
      status_Uuid = ''u1'', status_Healthy = healthy\<rparr>"

definition exampleFns :: "(string, string, string, string list, string) launch_fns" where
  "exampleFns =
     \<lparr>ConvertPodSpecToTaskConfig =
        (\<lambda>spec. if spec = ''bad'' then Inl (CollaboratorError ''invalid pod spec'') else Inr spec),
      GetPodName = (\<lambda>spec. spec),
      NewBuilder = (\<lambda>resources. resources),
      Build = (\<lambda>builder lt.
                 Inr (\<lparr>task_TaskId = lt_TaskId lt, task_AgentId = None, task_rest = lt_Config lt\<rparr>,
                      builder)),
      GetFrameworkID = ''fw'',
      GetMesosStreamID = ''stream'',
      schedulerClient_Call = (\<lambda>msid msg. None)\<rparr>"

definition exampleOffers :: "(string \<times> string Offer) list" where
  "exampleOffers =
     [(''o1'', \<lparr>offer_Id = ''o1'', offer_AgentId = Some ''agent-1'', offer_Resources = [''cpus:2'']\<rparr>),
      (''o2'', \<lparr>offer_Id = ''o2'', offer_AgentId = Some ''agent-1'', offer_Resources = [''mem:64'']\<rparr>)]"

definition exampleManager :: "(string, string) MesosManager" where
  "exampleManager =
     (NewMesosManager [])\<lparr>offerManager := \<lparr>hostOffers = (\<lambda>_. [])(''h1'' := exampleOffers)\<rparr>\<rparr>"

definition goodPods :: "string LaunchablePod list" where
  "goodPods = [\<lparr>PodId = Some ''pod-1'', Spec = ''spec-1''\<rparr>, \<lparr>PodId = Some ''pod-2'', Spec = ''spec-2''\<rparr>]"

definition badPods :: "string LaunchablePod list" where
  "badPods = [\<lparr>PodId = Some ''pod-1'', Spec = ''spec-1''\<rparr>, \<lparr>PodId = Some ''pod-2'', Spec = ''bad''\<rparr>]"

definition exampleTasks :: "string TaskInfo list" where
  "exampleTasks =
     [\<lparr>task_TaskId = ''pod-1'', task_AgentId = Some ''agent-1'', task_rest = ''spec-1''\<rparr>,
      \<lparr>task_TaskId = ''pod-2'', task_AgentId = Some ''agent-1'', task_rest = ''spec-2''\<rparr>]"

section \<open>Goal-state engine\<close>

text \<open>
  Modelled from the spec: the engine (its \<open>Enqueue\<close>, \<open>IsScheduled\<close>, \<open>Delete\<close> and
  the job it hands to the worker pool) and the deadline queue are not among the
  sources; only the engine's test is. The definitions below follow the spec's section
  on the goal-state engine: its public contract, the four steps of the dispatcher's
  job and the backoff semantics. Instants and durations are integers (nanoseconds).
\<close>

type_synonym instant = int
type_synonym duration = int

datatype action_error = ActionError string

text \<open>
  An action is a function \<open>(ctx, entity) \<rightarrow> error\<close>. It is given the entity's id and may
  change the world outside the engine (\<open>'w\<close>); \<open>None\<close> is the nil error.
\<close>

type_synonym 'w Action = "string \<Rightarrow> 'w \<Rightarrow> action_error option \<times> 'w"

record ('v, 'w) Entity =
  GetID :: string
  GetState :: 'v
  GetGoalState :: 'v
  GetActionList :: "'v \<Rightarrow> 'v \<Rightarrow> 'w Action list"

text \<open>
  The deadline queue, by what the engine needs of it: which ids are resident and with
  which deadline. \<open>Schedule\<close> inserts or repositions, \<open>Cancel\<close> removes if present.
\<close>

type_synonym DeadlineQueue = "string \<rightharpoonup> instant"

definition Schedule :: "string \<Rightarrow> instant \<Rightarrow> DeadlineQueue \<Rightarrow> DeadlineQueue" where
  "Schedule ident deadline q = q(ident \<mapsto> deadline)"

definition Cancel :: "string \<Rightarrow> DeadlineQueue \<Rightarrow> DeadlineQueue" where
  "Cancel ident q = q(ident := None)"

record ('v, 'w) entityMapItem =
  entity :: "('v, 'w) Entity"
  delay :: duration

record ('v, 'w) engine =
  entityMap :: "string \<rightharpoonup> ('v, 'w) entityMapItem"
  deadlineQueue :: DeadlineQueue
  failureRetryDelay :: duration
  maxRetryDelay :: duration

text \<open>
  \<open>Enqueue(entity, deadline)\<close>: registers the entity if unknown; schedules the next
  evaluation no later than \<open>deadline\<close>: an earlier deadline already scheduled is kept,
  a later one is tightened to the new one.
\<close>

definition EngineEnqueue ::
  "('v, 'w) Entity \<Rightarrow> instant \<Rightarrow> ('v, 'w) engine \<Rightarrow> ('v, 'w) engine" where
  "EngineEnqueue ent deadline e =
     (let e1 = (case entityMap e (GetID ent) of
                  None \<Rightarrow> e\<lparr>entityMap := (entityMap e)(GetID ent \<mapsto> \<lparr>entity = ent, delay = 0\<rparr>)\<rparr>
                | Some _ \<Rightarrow> e)
      in case deadlineQueue e1 (GetID ent) of
           None \<Rightarrow> e1\<lparr>deadlineQueue := Schedule (GetID ent) deadline (deadlineQueue e1)\<rparr>
         | Some d \<Rightarrow>
             if d \<le> deadline then e1
             else e1\<lparr>deadlineQueue := Schedule (GetID ent) deadline (deadlineQueue e1)\<rparr>)"

definition IsScheduled :: "('v, 'w) Entity \<Rightarrow> ('v, 'w) engine \<Rightarrow> bool" where
  "IsScheduled ent e \<longleftrightarrow> deadlineQueue e (GetID ent) \<noteq> None"

definition Delete :: "('v, 'w) Entity \<Rightarrow> ('v, 'w) engine \<Rightarrow> ('v, 'w) engine" where
  "Delete ent e =
     e\<lparr>entityMap := (entityMap e)(GetID ent := None),
       deadlineQueue := Cancel (GetID ent) (deadlineQueue e)\<rparr>"

text \<open>Step 3: the actions run in sequence and the first error ends the run.\<close>

fun runActions :: "'w Action list \<Rightarrow> string \<Rightarrow> 'w \<Rightarrow> action_error option \<times> 'w" where
  "runActions [] ident w = (None, w)"
| "runActions (a # as) ident w =
     (case a ident w of
        (Some err, w') \<Rightarrow> (Some err, w')
      | (None, w') \<Rightarrow> runActions as ident w')"

text \<open>The backoff: \<open>delay = min(max(delay\<cdot>2, failureRetryDelay), maxRetryDelay)\<close>.\<close>

definition backoff :: "duration \<Rightarrow> duration \<Rightarrow> duration \<Rightarrow> duration" where
  "backoff d failureRetry maxRetry = min (max (d * 2) failureRetry) maxRetry"

text \<open>
  The job of the worker pool for the item the dispatcher popped from the deadline
  queue (so it is no longer resident there): read state and goal, get the action list,
  run it. \<open>now\<close> is the clock when a failed run is rescheduled. An id that is not
  registered leaves everything as it is.
\<close>

definition runActionList ::
  "string \<Rightarrow> instant \<Rightarrow> ('v, 'w) engine \<Rightarrow> 'w \<Rightarrow> ('v, 'w) engine \<times> 'w" where
  "runActionList ident now e w =
     (case entityMap e ident of
        None \<Rightarrow> (e, w)
      | Some item \<Rightarrow>
          (let e0 = e\<lparr>deadlineQueue := Cancel ident (deadlineQueue e)\<rparr>;
               state = GetState (entity item);
               goal = GetGoalState (entity item);
               actions = GetActionList (entity item) state goal
           in if actions = [] then
                (e0\<lparr>entityMap := (entityMap e0)(ident \<mapsto> item\<lparr>delay := 0\<rparr>)\<rparr>, w)
              else
                (case runActions actions ident w of
                   (Some err, w') \<Rightarrow>
                     (let d = backoff (delay item) (failureRetryDelay e0) (maxRetryDelay e0)
                      in (e0\<lparr>entityMap := (entityMap e0)(ident \<mapsto> item\<lparr>delay := d\<rparr>),
                             deadlineQueue := Schedule ident (now + d) (deadlineQueue e0)\<rparr>, w'))
                 | (None, w') \<Rightarrow>
                     (e0\<lparr>entityMap := (entityMap e0)(ident \<mapsto> item\<lparr>delay := 0\<rparr>)\<rparr>, w'))))"

definition delayOf :: "string \<Rightarrow> ('v, 'w) engine \<Rightarrow> duration option" where
  "delayOf ident e = map_option delay (entityMap e ident)"

subsection \<open>The entities and actions of the engine's test\<close>

text \<open>
  From the test of the engine (in the sources): the global trace \<open>idList\<close> and the
  counter \<open>failCount\<close> are the world; \<open>wg\<close> only synchronises the test and is left
  out. \<open>testActionFailure\<close> fails three times before it succeeds.
\<close>

record test_world =
  idList :: "string list"
  failCount :: int

definition testAction :: "test_world Action" where
  "testAction ident w = (None, w\<lparr>idList := idList w @ [ident]\<rparr>)"

definition testActionFailure :: "test_world Action" where
  "testActionFailure ident w =
     (let w1 = w\<lparr>idList := idList w @ [ident]\<rparr>
      in if failCount w1 < 3 then (Some (ActionError ''fake error''), w1\<lparr>failCount := failCount w1 + 1\<rparr>)
         else (None, w1\<lparr>failCount := 0\<rparr>))"

definition testGetActionList :: "string \<Rightarrow> string \<Rightarrow> test_world Action list" where
  "testGetActionList state goalstate =
     (if state = ''init'' \<and> goalstate = ''success'' then [testAction]
      else if state = ''init'' \<and> goalstate = ''fail'' then [testActionFailure]
      else if state = ''multi'' \<and> goalstate = ''success'' then [testAction, testActionFailure]
      else [])"

definition newTestEntity :: "string \<Rightarrow> string \<Rightarrow> string \<Rightarrow> (string, test_world) Entity" where
  "newTestEntity ident state goalstate =
     \<lparr>GetID = ident, GetState = state, GetGoalState = goalstate, GetActionList = testGetActionList\<rparr>"

text \<open>
  The engine of \<open>TestEngineEnqueueDequeueFailure\<close>: \<open>failureRetryDelay\<close> is 100 ms and
  \<open>maxRetryDelay\<close> 200 ms.
\<close>

definition testEngine :: "(string, test_world) engine" where
  "testEngine = \<lparr>entityMap = Map.empty, deadlineQueue = Map.empty,
                 failureRetryDelay = 100000000, maxRetryDelay = 200000000\<rparr>"

definition failingEntity :: "(string, test_world) Entity" where
  "failingEntity = newTestEntity ''0'' ''init'' ''fail''"

definition failingEngine :: "(string, test_world) engine" where
  "failingEngine = EngineEnqueue failingEntity 0 testEngine"

section \<open>Proofs: priority queue\<close>

lemma mll_inv_New: "mll_inv NewMultiLevelList"
  by (simp add: mll_inv_def NewMultiLevelList_def)

lemma totalLen_sum: "mll_inv l \<Longrightarrow> totalLen l = (\<Sum>p\<in>{p. mapLists l p \<noteq> []}. LenLevel p l)"
  unfolding totalLen_def mll_inv_def
  by (metis sum_list_distinct_conv_sum_set)

lemma mll_inv_finite: "mll_inv l \<Longrightarrow> finite {p. mapLists l p \<noteq> []}"
  unfolding mll_inv_def by (metis List.finite_set)

lemma mll_inv_Push: "mll_inv l \<Longrightarrow> mll_inv (Push p x l)"
  unfolding mll_inv_def Push_def
  by (auto simp: sorted_insort distinct_insort set_insort_key)

lemma totalLen_Push: assumes "mll_inv l" shows "totalLen (Push p x l) = totalLen l + 1"
proof -
  let ?S = "{q. mapLists l q \<noteq> []}"
  have fin: "finite ?S" using assms by (rule mll_inv_finite)
  have S': "{q. mapLists (Push p x l) q \<noteq> []} = insert p ?S"
    by (auto simp: Push_def)
  have "totalLen (Push p x l) = (\<Sum>q\<in>insert p ?S. LenLevel q (Push p x l))"
    using totalLen_sum [OF mll_inv_Push [OF assms]] S' by simp
  also have "\<dots> = LenLevel p (Push p x l) + (\<Sum>q\<in>?S - {p}. LenLevel q (Push p x l))"
    using fin by (simp add: sum.insert_remove)
  also have "(\<Sum>q\<in>?S - {p}. LenLevel q (Push p x l)) = (\<Sum>q\<in>?S - {p}. LenLevel q l)"
    by (rule sum.cong) (auto simp: LenLevel_def Push_def)
  also have "LenLevel p (Push p x l) = LenLevel p l + 1"
    by (simp add: LenLevel_def Push_def)
  also have "LenLevel p l + 1 + (\<Sum>q\<in>?S - {p}. LenLevel q l) = (\<Sum>q\<in>?S. LenLevel q l) + 1"
  proof (cases "p \<in> ?S")
    case True
    then show ?thesis using fin by (simp add: sum.remove)
  next
    case False
    then have "LenLevel p l = 0" by (simp add: LenLevel_def)
    moreover from False have "?S - {p} = ?S" by auto
    ultimately show ?thesis by simp
  qed
  finally show ?thesis using totalLen_sum [OF assms] by simp
qed

lemma sorted_removeAll: "sorted xs \<Longrightarrow> sorted (removeAll (p::int) xs)"
  by (simp add: removeAll_filter_not_eq sorted_wrt_filter)

lemma mll_inv_Pop: "mll_inv l \<Longrightarrow> Pop lv l = Inr (x, l') \<Longrightarrow> mll_inv l'"
  unfolding mll_inv_def
  by (cases lv) (auto split: list.splits if_splits simp: sorted_removeAll distinct_removeAll)

lemma Pop_Inl: "Pop lv l = Inl e \<Longrightarrow> e = Empty"
  by (cases lv) (auto split: list.splits)

lemma Pop_Lvl_Inr: "Pop lv l = Inr (x, l') \<Longrightarrow> \<exists>p xs. lv = Lvl p \<and> mapLists l p = x # xs \<and> mapLists l' = (mapLists l)(p := xs)"
  by (cases lv) (auto split: list.splits)

lemma totalLen_Pop: assumes "mll_inv l" and pop: "Pop lv l = Inr (x, l')"
  shows "totalLen l' = totalLen l - 1"
proof -
  from Pop_Lvl_Inr [OF pop] obtain p xs where lv: "lv = Lvl p" and hd: "mapLists l p = x # xs"
    and m': "mapLists l' = (mapLists l)(p := xs)" by blast
  let ?S = "{q. mapLists l q \<noteq> []}"
  have fin: "finite ?S" using assms(1) by (rule mll_inv_finite)
  have pS: "p \<in> ?S" using hd by simp
  have inv': "mll_inv l'" using assms by (rule mll_inv_Pop)
  have S': "{q. mapLists l' q \<noteq> []} - {p} = ?S - {p}" using m' by auto
  have fin': "finite {q. mapLists l' q \<noteq> []}" using inv' by (rule mll_inv_finite)
  have lp: "LenLevel p l' = LenLevel p l - 1" using hd m' by (simp add: LenLevel_def)
  have "totalLen l' = (\<Sum>q\<in>{q. mapLists l' q \<noteq> []}. LenLevel q l')"
    using totalLen_sum [OF inv'] .
  also have "\<dots> = LenLevel p l' + (\<Sum>q\<in>{q. mapLists l' q \<noteq> []} - {p}. LenLevel q l')"
  proof (cases "mapLists l' p = []")
    case True
    then have "LenLevel p l' = 0" by (simp add: LenLevel_def)
    moreover from True have "{q. mapLists l' q \<noteq> []} - {p} = {q. mapLists l' q \<noteq> []}" by auto
    ultimately show ?thesis by simp
  next
    case False
    then show ?thesis using fin' by (simp add: sum.remove)
  qed
  also have "(\<Sum>q\<in>{q. mapLists l' q \<noteq> []} - {p}. LenLevel q l') = (\<Sum>q\<in>?S - {p}. LenLevel q l)"
    unfolding S' by (rule sum.cong) (auto simp: LenLevel_def m')
  finally have "totalLen l' = LenLevel p l - 1 + (\<Sum>q\<in>?S - {p}. LenLevel q l)"
    using lp by simp
  moreover have "totalLen l = LenLevel p l + (\<Sum>q\<in>?S - {p}. LenLevel q l)"
    using totalLen_sum [OF assms(1)] fin pS by (simp add: sum.remove)
  ultimately show ?thesis by simp
qed

lemma fold_max_mem: "fold max ps (p::int) \<in> set (p # ps)"
  by (induction ps arbitrary: p) (auto simp: max_def)

lemma fold_max_ge: "\<forall>q\<in>set (p # ps). q \<le> fold max ps (p::int)"
proof (induction ps arbitrary: p)
  case Nil
  then show ?case by simp
next
  case (Cons a ps)
  from Cons [of "max a p"] show ?case by (auto simp: max_def split: if_splits)
qed

lemma GetHighestLevel_MinusInf: "GetHighestLevel l = MinusInf \<longleftrightarrow> levelIndex l = []"
  by (simp add: GetHighestLevel_def split: list.splits)

lemma GetHighestLevel_Lvl: "GetHighestLevel l = Lvl p \<Longrightarrow> p \<in> set (levelIndex l) \<and> (\<forall>q\<in>set (levelIndex l). q \<le> p)"
  unfolding GetHighestLevel_def
  using fold_max_mem fold_max_ge by (fastforce split: list.splits)

lemma Pop_highest: assumes "mll_inv l" "levelIndex l \<noteq> []"
  shows "\<exists>x l'. Pop (GetHighestLevel l) l = Inr (x, l')"
proof -
  from assms(2) obtain p where p: "GetHighestLevel l = Lvl p"
    by (cases "GetHighestLevel l") (auto simp: GetHighestLevel_MinusInf)
  then have "p \<in> set (levelIndex l)" using GetHighestLevel_Lvl by blast
  then have "mapLists l p \<noteq> []" using assms(1) by (auto simp: mll_inv_def)
  then show ?thesis using p by (auto split: list.splits)
qed

lemma sint_succ: "\<not> word_sle (lim::int64) c \<Longrightarrow> sint (c + 1) = sint c + 1"
proof -
  assume "\<not> word_sle lim c"
  then have lt: "sint c < sint lim" by (simp add: word_sle_eq)
  have "sint lim < 2 ^ 63" using sint_lt [of lim] by simp
  with lt have up: "sint c + 1 < 2 ^ 63" by simp
  have lo: "- (2 ^ 63) \<le> sint c" using sint_ge [of c] by simp
  show ?thesis
    using up lo by (simp add: sint_word_ariths signed_take_bit_int_eq_self)
qed

lemma sint_pred: "0 < sint (c::int64) \<Longrightarrow> sint (c - 1) = sint c - 1"
proof -
  assume pos: "0 < sint c"
  have "sint c < 2 ^ 63" using sint_lt [of c] by simp
  then show ?thesis
    using pos by (simp add: sint_word_ariths signed_take_bit_int_eq_self)
qed

lemma pq_inv_New: "0 \<le> sint lim \<Longrightarrow> pq_inv (NewPriorityQueue lim)"
  by (simp add: pq_inv_def NewPriorityQueue_def mll_inv_def totalLen_def NewMultiLevelList_def)

lemma pq_inv_Enqueue: "pq_inv f \<Longrightarrow> pq_inv (snd (Enqueue ti f))"
  by (auto simp: pq_inv_def Enqueue_def mll_inv_Push totalLen_Push sint_succ word_sle_eq)

lemma Dequeue_empty:
  "levelIndex (list f) = [] \<Longrightarrow> Dequeue f = ((emptyTaskItem, Some Empty), f)"
  by (simp add: Dequeue_def DequeueI_def GetHighestLevel_def interfere_def
      retryLoop.simps [of MinusInf])

lemma Dequeue_nonempty:
  assumes "mll_inv (list f)" "levelIndex (list f) \<noteq> []"
  shows "\<exists>x l'. Pop (GetHighestLevel (list f)) (list f) = Inr (x, l') \<and>
           Dequeue f = ((x, None), f\<lparr>list := l', count := count f - 1\<rparr>)"
proof -
  from Pop_highest [OF assms] obtain x l' where
    "Pop (GetHighestLevel (list f)) (list f) = Inr (x, l')" by blast
  then show ?thesis by (simp add: Dequeue_def DequeueI_def interfere_def)
qed

lemma totalLen_nonneg: "0 \<le> totalLen l"
  unfolding totalLen_def LenLevel_def by (rule sum_list_nonneg) auto

lemma totalLen_pos: "mll_inv l \<Longrightarrow> levelIndex l \<noteq> [] \<Longrightarrow> 0 < totalLen l"
proof -
  assume inv: "mll_inv l" and ne: "levelIndex l \<noteq> []"
  from Pop_highest [OF inv ne] obtain x l' where "Pop (GetHighestLevel l) l = Inr (x, l')" by blast
  from totalLen_Pop [OF inv this] totalLen_nonneg [of l'] show ?thesis by simp
qed

lemma pq_inv_Dequeue: assumes "pq_inv f" shows "pq_inv (snd (Dequeue f))"
proof (cases "levelIndex (list f) = []")
  case True
  then show ?thesis using assms by (simp add: Dequeue_empty)
next
  case False
  from assms have inv: "mll_inv (list f)" by (simp add: pq_inv_def)
  from Dequeue_nonempty [OF inv False] obtain x l' where
    pop: "Pop (GetHighestLevel (list f)) (list f) = Inr (x, l')" and
    deq: "Dequeue f = ((x, None), f\<lparr>list := l', count := count f - 1\<rparr>)" by blast
  have pos: "0 < sint (count f)" using totalLen_pos [OF inv False] assms by (simp add: pq_inv_def)
  show ?thesis
    using assms mll_inv_Pop [OF inv pop] totalLen_Pop [OF inv pop] sint_pred [OF pos]
    by (simp add: deq pq_inv_def)
qed

lemma pq_inv_run: "pq_inv f \<Longrightarrow> pq_inv (pq_run os f)"
  unfolding pq_run_def
proof (induction os arbitrary: f)
  case Nil
  then show ?case by simp
next
  case (Cons a os)
  have "pq_inv (pq_step a f)" using Cons.prems
    by (cases a) (simp_all add: pq_inv_Enqueue pq_inv_Dequeue)
  then show ?case using Cons.IH by simp
qed

lemma limit_Enqueue: "limit (snd (Enqueue ti f)) = limit f"
  by (simp add: Enqueue_def)

lemma limit_Dequeue: "limit (snd (DequeueI sch f)) = limit f"
  by (simp add: DequeueI_def Let_def split: sum.splits prod.splits)

lemma limit_run: "limit (pq_run os f) = limit f"
  unfolding pq_run_def
proof (induction os arbitrary: f)
  case Nil
  show ?case by simp
next
  case (Cons a os)
  have "limit (pq_step a f) = limit f"
    by (cases a) (simp_all add: limit_Enqueue limit_Dequeue Dequeue_def)
  with Cons.IH [of "pq_step a f"] show ?case by simp
qed

lemma Len_support: "{p. Len f p \<noteq> 0} = {p. mapLists (list f) p \<noteq> []}"
  by (simp add: Len_def LenLevel_def)

subsection \<open>Claim C8: the count invariant\<close>

text \<open>
  C8 (as amended). For every priority queue created with a limit \<open>\<ge> 0\<close> and every
  sequence of \<open>Enqueue\<close> and \<open>Dequeue\<close> operations run one after the other, after
  each operation \<open>0 \<le> count \<le> limit\<close>, and \<open>count\<close> is the sum of \<open>Len(p)\<close> over
  all priorities \<open>p\<close> (the priorities with a non-zero length are finitely many).
\<close>

theorem pq_count_invariant:
  assumes "0 \<le> sint lim"
  shows "let f = pq_run os (NewPriorityQueue lim) in
           0 \<le> sint (count f) \<and> sint (count f) \<le> sint (limit f) \<and>
           finite {p. Len f p \<noteq> 0} \<and>
           sint (count f) = (\<Sum>p | Len f p \<noteq> 0. Len f p)"
proof -
  define f where "f = pq_run os (NewPriorityQueue lim)"
  have inv: "pq_inv f" unfolding f_def by (rule pq_inv_run) (rule pq_inv_New [OF assms])
  then have m: "mll_inv (list f)" by (simp add: pq_inv_def)
  have "0 \<le> sint (count f)" using inv totalLen_nonneg [of "list f"] by (simp add: pq_inv_def)
  moreover have "sint (count f) \<le> sint (limit f)" using inv by (simp add: pq_inv_def)
  moreover have "finite {p. Len f p \<noteq> 0}"
    unfolding Len_support by (rule mll_inv_finite [OF m])
  moreover have "sint (count f) = (\<Sum>p | Len f p \<noteq> 0. Len f p)"
    using inv totalLen_sum [OF m] unfolding Len_support by (simp add: pq_inv_def Len_def)
  ultimately show ?thesis unfolding f_def [symmetric] by (simp add: Let_def)
qed

text \<open>Witness for C8: limit 2 and the history enqueue, enqueue, dequeue.\<close>

theorem pq_count_invariant_witness:
  "0 \<le> sint (2::int64) \<and>
   (let f = pq_run [Enq \<lparr>Priority = 1, payload = ''a''\<rparr>, Enq \<lparr>Priority = 7, payload = ''b''\<rparr>, Deq]
              (NewPriorityQueue 2) in
      0 \<le> sint (count f) \<and> sint (count f) \<le> sint (limit f) \<and>
      finite {p. Len f p \<noteq> 0} \<and>
      sint (count f) = (\<Sum>p | Len f p \<noteq> 0. Len f p))"
  using pq_count_invariant [of 2 "[Enq \<lparr>Priority = 1, payload = ''a''\<rparr>, Enq \<lparr>Priority = 7, payload = ''b''\<rparr>, Deq]"]
  by simp

text \<open>
  Counterexample to C8 as stated: \<open>NewPriorityQueue\<close> accepts a negative limit, and
  the new queue has \<open>count = 0 > limit\<close>.
\<close>

theorem pq_count_invariant_counterexample:
  "\<not> sint (count (pq_run [] (NewPriorityQueue (- 1)))) \<le> sint (limit (pq_run [] (NewPriorityQueue (- 1))))"
  by (simp add: pq_run_def NewPriorityQueue_def)

subsection \<open>Claim C6: the queue limit\<close>

text \<open>
  C6 (as amended). For every priority queue whose count is at least its limit,
  \<open>Enqueue\<close> returns the \<open>QueueLimitReached\<close> error and leaves the queue unchanged
  (count and contents); when a queue with a positive limit, reached by a sequential
  history from \<open>NewPriorityQueue\<close>, is at \<open>count = limit\<close>, a \<open>Dequeue\<close> followed by
  an \<open>Enqueue\<close> succeeds (and the queue is full again).
\<close>

theorem pq_limit:
  "(word_sle (limit f) (count f) \<longrightarrow> Enqueue ti f = (Some QueueLimitReached, f)) \<and>
   (0 < sint lim \<and> f = pq_run os (NewPriorityQueue lim) \<and> count f = limit f \<longrightarrow>
      (\<exists>item f1 f2. Dequeue f = ((item, None), f1) \<and> Enqueue ti f1 = (None, f2) \<and>
         count f2 = limit f2))"
proof (intro conjI impI)
  assume "word_sle (limit f) (count f)"
  then show "Enqueue ti f = (Some QueueLimitReached, f)" by (simp add: Enqueue_def)
next
  assume a: "0 < sint lim \<and> f = pq_run os (NewPriorityQueue lim) \<and> count f = limit f"
  then have lpos: "0 < sint lim" and f: "f = pq_run os (NewPriorityQueue lim)"
    and full: "count f = limit f" by blast+
  have inv: "pq_inv f" unfolding f by (rule pq_inv_run) (rule pq_inv_New, use lpos in simp)
  then have m: "mll_inv (list f)" by (simp add: pq_inv_def)
  have lim: "limit f = lim" unfolding f limit_run by (simp add: NewPriorityQueue_def)
  have pos: "0 < sint (count f)" unfolding full lim by (rule lpos)
  then have ne: "levelIndex (list f) \<noteq> []"
    using inv by (auto simp: pq_inv_def totalLen_def)
  from Dequeue_nonempty [OF m ne] obtain x l' where
    deq: "Dequeue f = ((x, None), f\<lparr>list := l', count := count f - 1\<rparr>)" by blast
  let ?f1 = "f\<lparr>list := l', count := count f - 1\<rparr>"
  have "sint (count ?f1) < sint (limit ?f1)" using sint_pred [OF pos] full by simp
  then have "Enqueue ti ?f1 = (None, ?f1\<lparr>list := Push (Priority ti) ti (list ?f1), count := count ?f1 + 1\<rparr>)"
    by (simp add: Enqueue_def word_sle_eq)
  with deq full show "\<exists>item f1 f2. Dequeue f = ((item, None), f1) \<and> Enqueue ti f1 = (None, f2) \<and>
         count f2 = limit f2" by simp
qed

text \<open>Witness for C6: a queue of limit 1 holding one item.\<close>

theorem pq_limit_witness:
  "word_sle (limit (pq_run [Enq \<lparr>Priority = 3, payload = ''a''\<rparr>] (NewPriorityQueue 1)))
            (count (pq_run [Enq \<lparr>Priority = 3, payload = ''a''\<rparr>] (NewPriorityQueue 1))) \<and>
   0 < sint (1::int64) \<and>
   count (pq_run [Enq \<lparr>Priority = 3, payload = ''a''\<rparr>] (NewPriorityQueue 1)) =
   limit (pq_run [Enq \<lparr>Priority = 3, payload = ''a''\<rparr>] (NewPriorityQueue 1)) \<and>
   Enqueue \<lparr>Priority = 9, payload = ''b''\<rparr>
      (pq_run [Enq \<lparr>Priority = 3, payload = ''a''\<rparr>] (NewPriorityQueue 1)) =
     (Some QueueLimitReached, pq_run [Enq \<lparr>Priority = 3, payload = ''a''\<rparr>] (NewPriorityQueue 1)) \<and>
   (\<exists>item f1 f2.
      Dequeue (pq_run [Enq \<lparr>Priority = 3, payload = ''a''\<rparr>] (NewPriorityQueue 1)) = ((item, None), f1) \<and>
      Enqueue \<lparr>Priority = 9, payload = ''b''\<rparr> f1 = (None, f2) \<and> count f2 = limit f2)"
proof -
  let ?f = "pq_run [Enq \<lparr>Priority = 3, payload = ''a''\<rparr>] (NewPriorityQueue 1)"
  have c: "count ?f = 1" and l: "limit ?f = 1"
    by (simp_all add: pq_run_def Enqueue_def NewPriorityQueue_def word_sle_eq)
  have h1: "word_sle (limit ?f) (count ?f)" by (simp add: c l)
  have h2: "0 < sint (1::int64) \<and> ?f = pq_run [Enq \<lparr>Priority = 3, payload = ''a''\<rparr>] (NewPriorityQueue 1) \<and> count ?f = limit ?f"
    by (simp add: c l)
  from pq_limit [of ?f "\<lparr>Priority = 9, payload = ''b''\<rparr>" 1 "[Enq \<lparr>Priority = 3, payload = ''a''\<rparr>]"] h1 h2
  show ?thesis by blast
qed

text \<open>
  Counterexample to C6 as stated: a queue of limit 0 is at \<open>count = limit\<close>, its
  \<open>Dequeue\<close> fails with \<open>Empty\<close> and the \<open>Enqueue\<close> that follows fails with
  \<open>QueueLimitReached\<close>.
\<close>

theorem pq_limit_counterexample:
  "count (NewPriorityQueue 0) = limit (NewPriorityQueue 0) \<and>
   Dequeue (NewPriorityQueue 0) = ((emptyTaskItem, Some Empty), NewPriorityQueue 0) \<and>
   Enqueue \<lparr>Priority = 9, payload = ''b''\<rparr> (NewPriorityQueue 0) =
     (Some QueueLimitReached, NewPriorityQueue 0)"
  by (simp add: Dequeue_empty Enqueue_def NewPriorityQueue_def NewMultiLevelList_def)

subsection \<open>Claim C7: the retry loop of Dequeue\<close>

lemma retryLoop_exit:
  "retryLoop hp err l sch = (hp', err', l') \<Longrightarrow> err' = None \<or> hp' = GetHighestLevel l'"
proof (induction hp err l sch rule: retryLoop.induct)
  case (1 hp err l sch)
  show ?case
  proof (cases "hp \<noteq> GetHighestLevel (interfere (burst sch) l)")
    case False
    with "1.prems" show ?thesis by (simp add: retryLoop.simps [of hp err l sch])
  next
    case True
    let ?l1 = "interfere (burst sch) l"
    let ?l2 = "interfere (burst (tl sch)) ?l1"
    let ?l3 = "interfere (burst (tl (tl sch))) ?l2"
    show ?thesis
    proof (cases "Pop (GetHighestLevel ?l2) ?l3")
      case (Inr r)
      with True "1.prems" show ?thesis
        by (cases r) (simp add: retryLoop.simps [of hp err l sch] Let_def)
    next
      case (Inl e)
      with True "1.prems" have "retryLoop (GetHighestLevel ?l2) e ?l3 (tl (tl (tl sch))) = (hp', err', l')"
        by (simp add: retryLoop.simps [of hp err l sch] Let_def)
      with "1.IH" [OF refl True refl refl refl Inl] show ?thesis by simp
    qed
  qed
qed

lemma retryLoop_no_interference:
  assumes "hp \<noteq> GetHighestLevel l"
  shows "retryLoop hp err l [] =
           (case Pop (GetHighestLevel l) l of
              Inr (x, l2) \<Rightarrow> (GetHighestLevel l, None, l2)
            | Inl e \<Rightarrow> (GetHighestLevel l, Some e, l))"
  using assms
  by (simp add: retryLoop.simps [of hp err l "[]"] retryLoop.simps [of "GetHighestLevel l" _ l "[]"]
      interfere_def Let_def split: sum.splits)

lemma mll_inv_applyOp: "mll_inv l \<Longrightarrow> mll_inv (applyOp a l)"
  by (cases a) (auto simp: mll_inv_Push split: sum.splits dest: mll_inv_Pop)

lemma mll_inv_interfere: "mll_inv l \<Longrightarrow> mll_inv (interfere os l)"
  unfolding interfere_def
  by (induction os arbitrary: l) (simp_all add: mll_inv_applyOp)

lemma Pop_highest_fails:
  assumes "mll_inv l" "Pop (GetHighestLevel l) l = Inl e"
  shows "GetHighestLevel l = MinusInf \<and> e = Empty"
proof -
  have "levelIndex l = []"
    using Pop_highest [OF assms(1)] assms(2) by fastforce
  then show ?thesis using Pop_Inl [OF assms(2)] by (simp add: GetHighestLevel_MinusInf)
qed

lemma Pop_fails_not_highest:
  assumes "mll_inv l" "Pop hp l = Inl e" "hp = GetHighestLevel l"
  shows "hp = MinusInf"
  using Pop_highest_fails [OF assms(1)] assms(2,3) by simp

lemma interfere_Nil [simp]: "interfere [] l = l"
  by (simp add: interfere_def)

lemma retryLoop_same:
  "hp = GetHighestLevel l \<Longrightarrow> retryLoop hp err l [] = (hp, Some err, l)"
  by (subst retryLoop.simps) simp

lemma DequeueI_one_burst:
  assumes inv: "mll_inv (list f)"
    and fail: "Pop (GetHighestLevel (list f)) (interfere b (list f)) = Inl e"
  shows "case Pop (GetHighestLevel (interfere b (list f))) (interfere b (list f)) of
           Inr (x, l2) \<Rightarrow> list (snd (DequeueI [b] f)) = l2
         | Inl _ \<Rightarrow> GetHighestLevel (interfere b (list f)) = MinusInf \<and>
                    DequeueI [b] f = ((emptyTaskItem, Some Empty), f\<lparr>list := interfere b (list f)\<rparr>)"
proof -
  let ?l1 = "interfere b (list f)"
  let ?hp = "GetHighestLevel (list f)"
  have inv1: "mll_inv ?l1" using inv by (rule mll_inv_interfere)
  have e: "e = Empty" using fail by (rule Pop_Inl)
  show ?thesis
  proof (cases "?hp = GetHighestLevel ?l1")
    case True
    then have mi: "GetHighestLevel ?l1 = MinusInf"
      using Pop_highest_fails [OF inv1] fail by simp
    have "retryLoop ?hp e ?l1 [] = (?hp, Some e, ?l1)"
      using True by (rule retryLoop_same)
    then show ?thesis using fail True mi e
      by (simp add: DequeueI_def Let_def)
  next
    case False
    note rl = retryLoop_no_interference [OF False, of e]
    show ?thesis
    proof (cases "Pop (GetHighestLevel ?l1) ?l1")
      case (Inl e')
      from Pop_highest_fails [OF inv1 Inl] have "GetHighestLevel ?l1 = MinusInf" "e' = Empty" by simp_all
      then show ?thesis using fail rl Inl
        by (simp add: DequeueI_def Let_def)
    next
      case (Inr r)
      then show ?thesis using fail rl
        by (cases r) (simp add: DequeueI_def Let_def)
    qed
  qed
qed

text \<open>
  C7 (as amended). \<open>Dequeue\<close> retries popping the highest level in a loop. Whatever
  other goroutines do meanwhile, the loop ends either with a pop that succeeded or when
  the re-peeked highest level is the level it tried last. If the first pop fails
  because other goroutines changed the list between peek and pop, and nothing
  interferes afterwards, the retry pops the head of the re-peeked highest level, or
  \<open>GetHighestLevel\<close> reports empty and \<open>Dequeue\<close> returns the empty sentinel item
  with the \<open>Empty\<close> error. On an empty queue \<open>Dequeue\<close> returns an empty sentinel
  task item together with the \<open>Empty\<close> error, and the queue is unchanged.
\<close>

theorem dequeue_retry:
  "(retryLoop hp err l sch = (hp', err', l') \<longrightarrow> err' = None \<or> hp' = GetHighestLevel l') \<and>
   (mll_inv (list f) \<and> Pop (GetHighestLevel (list f)) (interfere b (list f)) = Inl e \<longrightarrow>
      (case Pop (GetHighestLevel (interfere b (list f))) (interfere b (list f)) of
         Inr (x, l2) \<Rightarrow> list (snd (DequeueI [b] f)) = l2
       | Inl _ \<Rightarrow> GetHighestLevel (interfere b (list f)) = MinusInf \<and>
           DequeueI [b] f = ((emptyTaskItem, Some Empty), f\<lparr>list := interfere b (list f)\<rparr>))) \<and>
   (levelIndex (list g) = [] \<longrightarrow> Dequeue g = ((emptyTaskItem, Some Empty), g))"
  using retryLoop_exit [of hp err l sch hp' err' l'] DequeueI_one_burst [of f b e] Dequeue_empty [of g]
  by blast

lemma twoLevelQueue_eval:
  "twoLevelQueue = \<lparr>list = \<lparr>mapLists = (\<lambda>_. [])(5 := [\<lparr>Priority = 5, payload = ''a''\<rparr>], 3 := [\<lparr>Priority = 3, payload = ''b''\<rparr>]),
                    levelIndex = [3, 5]\<rparr>, limit = 10, count = 2\<rparr>"
  by (simp add: twoLevelQueue_def pq_run_def Enqueue_def NewPriorityQueue_def NewMultiLevelList_def Push_def
      word_sle_eq)

lemma twoLevelQueue_inv: "mll_inv (list twoLevelQueue)"
  using pq_inv_run [OF pq_inv_New, of 10] by (simp add: twoLevelQueue_def pq_inv_def)

lemma oneItemQueue_eval:
  "oneItemQueue = \<lparr>list = \<lparr>mapLists = (\<lambda>_. [])(5 := [\<lparr>Priority = 5, payload = ''a''\<rparr>]),
                    levelIndex = [5]\<rparr>, limit = 10, count = 1\<rparr>"
  by (simp add: oneItemQueue_def pq_run_def Enqueue_def NewPriorityQueue_def NewMultiLevelList_def Push_def
      word_sle_eq)

text \<open>
  Counterexample to C7 as stated: the queue holds one item at level 5; after the peek
  another consumer pops it, the pop of \<open>Dequeue\<close> fails, and a producer pushes a new
  item at level 5 before the loop condition is evaluated. The loop does not run:
  \<open>Dequeue\<close> returns the \<open>Empty\<close> error although no value was obtained and
  \<open>GetHighestLevel\<close> reports level 5.
\<close>

theorem dequeue_retry_counterexample:
  "snd (fst (DequeueI [[OpPop (Lvl 5)], [OpPush 5 \<lparr>Priority = 5, payload = ''c''\<rparr>]] oneItemQueue)) = Some Empty \<and>
   GetHighestLevel (list (snd (DequeueI [[OpPop (Lvl 5)], [OpPush 5 \<lparr>Priority = 5, payload = ''c''\<rparr>]] oneItemQueue))) = Lvl 5"
  by (simp add: oneItemQueue_eval DequeueI_def GetHighestLevel_def interfere_def Push_def
      retryLoop.simps [of "Lvl 5"])

text \<open>
  When the retry succeeds, \<open>Dequeue\<close> still returns \<open>&TaskItem{}, err\<close> with
  \<open>err = nil\<close>: the item popped from level 3 is dropped and \<open>count\<close> stays 2 over
  an empty list.
\<close>

lemma retry_success_drops_item:
  "DequeueI [[OpPop (Lvl 5)]] twoLevelQueue = ((emptyTaskItem, None), twoLevelQueue\<lparr>list := emptiedList\<rparr>) \<and>
   count (twoLevelQueue\<lparr>list := emptiedList\<rparr>) = 2 \<and> totalLen emptiedList = 0"
  by (simp add: twoLevelQueue_eval DequeueI_def GetHighestLevel_def interfere_def Push_def emptiedList_def
      retryLoop.simps [of "Lvl 5"] totalLen_def)

text \<open>
  Witness for C7: levels 5 and 3 hold one item each, and another consumer pops level 5
  between the peek and the pop.
\<close>

theorem dequeue_retry_witness:
  "retryLoop (Lvl 5) Empty (interfere [OpPop (Lvl 5)] (list twoLevelQueue)) [] = (Lvl 3, None, emptiedList) \<and>
   mll_inv (list twoLevelQueue) \<and>
   Pop (GetHighestLevel (list twoLevelQueue)) (interfere [OpPop (Lvl 5)] (list twoLevelQueue)) = Inl Empty \<and>
   Pop (GetHighestLevel (interfere [OpPop (Lvl 5)] (list twoLevelQueue))) (interfere [OpPop (Lvl 5)] (list twoLevelQueue)) =
     Inr (\<lparr>Priority = 3, payload = ''b''\<rparr>, emptiedList) \<and>
   list (snd (DequeueI [[OpPop (Lvl 5)]] twoLevelQueue)) = emptiedList \<and>
   levelIndex (list (NewPriorityQueue 10)) = [] \<and>
   Dequeue (NewPriorityQueue 10) = ((emptyTaskItem, Some Empty), NewPriorityQueue 10)"
proof -
  let ?l1 = "interfere [OpPop (Lvl 5)] (list twoLevelQueue)"
  have l1: "?l1 = \<lparr>mapLists = (\<lambda>_. [])(5 := [], 3 := [\<lparr>Priority = 3, payload = ''b''\<rparr>]), levelIndex = [3]\<rparr>"
    by (simp add: twoLevelQueue_eval interfere_def fun_upd_twist)
  have ghl5: "GetHighestLevel (list twoLevelQueue) = Lvl 5"
    by (simp add: twoLevelQueue_eval GetHighestLevel_def)
  have ghl3: "GetHighestLevel ?l1 = Lvl 3"
    by (simp add: l1 GetHighestLevel_def)
  note ghl = ghl5 ghl3
  have pop1: "Pop (GetHighestLevel (list twoLevelQueue)) ?l1 = Inl Empty"
    by (simp add: ghl(1) l1)
  have pop2: "Pop (GetHighestLevel ?l1) ?l1 = Inr (\<lparr>Priority = 3, payload = ''b''\<rparr>, emptiedList)"
    by (simp add: l1 GetHighestLevel_def emptiedList_def)
  have rl: "retryLoop (Lvl 5) Empty ?l1 [] = (Lvl 3, None, emptiedList)"
    using retryLoop_no_interference [of "Lvl 5" ?l1 Empty] pop2 ghl by simp
  have e: "levelIndex (list (NewPriorityQueue 10)) = []"
    by (simp add: NewPriorityQueue_def NewMultiLevelList_def)
  from dequeue_retry [of "Lvl 5" Empty ?l1 "[]" "Lvl 3" None emptiedList twoLevelQueue "[OpPop (Lvl 5)]" Empty
      "NewPriorityQueue 10"] rl twoLevelQueue_inv pop1 pop2 e
  show ?thesis by simp
qed

section \<open>Proofs: worker pool\<close>

subsection \<open>Claim C3: lazy shrink\<close>

text \<open>
  \<open>SetMaxWorkers\<close> stores the new target in \<open>numWorkers\<close>, while \<open>shouldWorkerStop\<close>
  compares \<open>numWorkers\<close> with \<open>options.MaxWorkers\<close>, which nothing changes after
  \<open>NewPool\<close>. So once \<open>numWorkers\<close> is at most \<open>options.MaxWorkers\<close> no worker ever
  stops.
\<close>

lemma shrink_no_stop_step:
  "numWorkers p \<le> MaxWorkers (options p) \<Longrightarrow>
   fst (runWorkerIteration p) \<noteq> Stopped \<and>
   numWorkers (snd (runWorkerIteration p)) = numWorkers p \<and>
   options (snd (runWorkerIteration p)) = options p \<and>
   liveWorkers (snd (runWorkerIteration p)) = liveWorkers p"
  by (auto simp: runWorkerIteration_def shouldWorkerStop_def split: list.splits)

lemma shrink_no_stop:
  "numWorkers p \<le> MaxWorkers (options p) \<Longrightarrow>
   Stopped \<notin> set (fst (runWorkerIterations k p)) \<and>
   liveWorkers (snd (runWorkerIterations k p)) = liveWorkers p"
proof (induction k arbitrary: p)
  case 0
  show ?case by simp
next
  case (Suc k)
  obtain e p1 where r: "runWorkerIteration p = (e, p1)" by (cases "runWorkerIteration p")
  from shrink_no_stop_step [OF Suc.prems] r
  have e: "e \<noteq> Stopped" and n: "numWorkers p1 = numWorkers p" and o: "options p1 = options p"
    and l: "liveWorkers p1 = liveWorkers p" by simp_all
  from Suc.prems n o have "numWorkers p1 \<le> MaxWorkers (options p1)" by simp
  from Suc.IH [OF this] e l r show ?case by (auto split: prod.splits)
qed

text \<open>
  C3 fails on the code: a pool of 4 workers is told \<open>SetMaxWorkers(2)\<close>. All 4
  workers stay alive: \<open>shouldWorkerStop\<close> answers false, and no number of loop
  iterations stops a worker.
\<close>

theorem pool_shrink_never_stops:
  "liveWorkers (SetMaxWorkers 2 (NewPool \<lparr>MaxWorkers = 4\<rparr> :: string Pool)) = 4 \<and>
   fst (shouldWorkerStop (SetMaxWorkers 2 (NewPool \<lparr>MaxWorkers = 4\<rparr> :: string Pool))) = False \<and>
   (\<forall>k. Stopped \<notin> set (fst (runWorkerIterations k (SetMaxWorkers 2 (NewPool \<lparr>MaxWorkers = 4\<rparr> :: string Pool)))) \<and>
        liveWorkers (snd (runWorkerIterations k (SetMaxWorkers 2 (NewPool \<lparr>MaxWorkers = 4\<rparr> :: string Pool)))) = 4)"
proof -
  let ?p = "SetMaxWorkers 2 (NewPool \<lparr>MaxWorkers = 4\<rparr> :: string Pool)"
  have a: "numWorkers ?p \<le> MaxWorkers (options ?p)" and b: "liveWorkers ?p = 4"
    by (simp_all add: SetMaxWorkers_def NewPool_def DefaultMaxWorkers_def)
  have c: "fst (shouldWorkerStop ?p) = False" using a by (simp add: shouldWorkerStop_def)
  from shrink_no_stop [OF a] b c show ?thesis by simp
qed

text \<open>
  The same defect when growing: \<open>SetMaxWorkers(6)\<close> on a pool of 4 spawns 2 workers,
  and the next two loop iterations stop two workers again, leaving 4 for a target of 6.
\<close>

lemma pool_grow_is_undone:
  "liveWorkers (SetMaxWorkers 6 (NewPool \<lparr>MaxWorkers = 4\<rparr> :: string Pool)) = 6 \<and>
   runWorkerIterations 2 (SetMaxWorkers 6 (NewPool \<lparr>MaxWorkers = 4\<rparr> :: string Pool)) =
     ([Stopped, Stopped],
      \<lparr>options = \<lparr>MaxWorkers = 4\<rparr>, queue = [], numWorkers = 4, jobs = 0, liveWorkers = 4\<rparr>)"
  by (simp add: SetMaxWorkers_def NewPool_def DefaultMaxWorkers_def runWorkerIteration_def
      shouldWorkerStop_def numeral_2_eq_2)

section \<open>Proofs: Mesos plugin\<close>

subsection \<open>Claim C10: hostname and health of the published pod event\<close>

text \<open>
  C10. For every \<open>UPDATE\<close> event, \<open>Update\<close> publishes one pod event downstream. Its
  \<open>Hostname\<close> field is the value of the status's agent id, the empty string when the
  agent id, the status or the event is nil; it is the same string as its \<open>AgentId\<close>
  field, so never a hostname. Its \<open>Healthy\<close> field is \<open>HEALTH_STATE_HEALTHY\<close> exactly
  when the status's healthy flag is set and true, and \<open>HEALTH_STATE_UNHEALTHY\<close>
  otherwise (flag false, flag unset, status nil, event nil).
\<close>

theorem update_hostname_and_health:
  "podEventCh (Update F (Some \<lparr>Status = Some st\<rparr>) m) =
     podEventCh m @ [buildPodEventFromMesosTaskStatus F (Some \<lparr>Status = Some st\<rparr>)] \<and>
   Hostname (Event (last (podEventCh (Update F (Some \<lparr>Status = Some st\<rparr>) m)))) =
     (case status_AgentId st of None \<Rightarrow> [] | Some a \<Rightarrow> a) \<and>
   AgentId (Event (last (podEventCh (Update F (Some \<lparr>Status = Some st\<rparr>) m)))) =
     (case status_AgentId st of None \<Rightarrow> [] | Some a \<Rightarrow> a) \<and>
   Healthy (Event (last (podEventCh (Update F (Some \<lparr>Status = Some st\<rparr>) m)))) =
     (if status_Healthy st = Some True then ''HEALTH_STATE_HEALTHY''
      else ''HEALTH_STATE_UNHEALTHY'') \<and>
   Hostname (Event (last (podEventCh (Update F (Some \<lparr>Status = None\<rparr>) m)))) = [] \<and>
   Healthy (Event (last (podEventCh (Update F (Some \<lparr>Status = None\<rparr>) m)))) =
     ''HEALTH_STATE_UNHEALTHY'' \<and>
   Hostname (Event (last (podEventCh (Update F None m)))) = [] \<and>
   Healthy (Event (last (podEventCh (Update F None m)))) = ''HEALTH_STATE_UNHEALTHY'' \<and>
   Hostname (Event (last (podEventCh (Update F evt m)))) =
     AgentId (Event (last (podEventCh (Update F evt m)))) \<and>
   Hostname (Event (last (podEventCh (Update F evt m)))) = GetValue (GetAgentId (GetStatus evt)) \<and>
   Healthy (Event (last (podEventCh (Update F evt m)))) =
     (if GetHealthy (GetStatus evt) then HEALTH_STATE_HEALTHY else HEALTH_STATE_UNHEALTHY) \<and>
   HEALTH_STATE_HEALTHY \<noteq> HEALTH_STATE_UNHEALTHY"
proof -
  have h: "GetHealthy (Some st) \<longleftrightarrow> status_Healthy st = Some True"
    by (cases "status_Healthy st") (auto simp: GetHealthy_def)
  show ?thesis
    by (simp add: Update_def buildPodEventFromMesosTaskStatus_def Let_def GetStatus_def h
        GetAgentId_def GetValue_def HEALTH_STATE_HEALTHY_def HEALTH_STATE_UNHEALTHY_def)
      (simp add: GetHealthy_def)
qed

text \<open>
  Witness for C10: a status with agent id \<open>agent-7\<close> whose healthy flag is true, false
  and unset.
\<close>

theorem update_hostname_and_health_witness:
  "Hostname (Event (last (podEventCh
      (Update exampleStatusFns (Some \<lparr>Status = Some (exampleStatus (Some True))\<rparr>) startedManager)))) =
     ''agent-7'' \<and>
   Healthy (Event (last (podEventCh
      (Update exampleStatusFns (Some \<lparr>Status = Some (exampleStatus (Some True))\<rparr>) startedManager)))) =
     ''HEALTH_STATE_HEALTHY'' \<and>
   Healthy (Event (last (podEventCh
      (Update exampleStatusFns (Some \<lparr>Status = Some (exampleStatus (Some False))\<rparr>) startedManager)))) =
     ''HEALTH_STATE_UNHEALTHY'' \<and>
   Healthy (Event (last (podEventCh
      (Update exampleStatusFns (Some \<lparr>Status = Some (exampleStatus None)\<rparr>) startedManager)))) =
     ''HEALTH_STATE_UNHEALTHY''"
proof -
  note t = update_hostname_and_health [where F = exampleStatusFns and m = startedManager
      and evt = None]
  from t [where st = "exampleStatus (Some True)"]
  have a: "Hostname (Event (last (podEventCh
      (Update exampleStatusFns (Some \<lparr>Status = Some (exampleStatus (Some True))\<rparr>) startedManager)))) =
     (case status_AgentId (exampleStatus (Some True)) of None \<Rightarrow> [] | Some a \<Rightarrow> a)"
    and h: "Healthy (Event (last (podEventCh
      (Update exampleStatusFns (Some \<lparr>Status = Some (exampleStatus (Some True))\<rparr>) startedManager)))) =
     (if status_Healthy (exampleStatus (Some True)) = Some True then ''HEALTH_STATE_HEALTHY''
      else ''HEALTH_STATE_UNHEALTHY'')"
    by blast+
  from t [where st = "exampleStatus (Some False)"]
  have f: "Healthy (Event (last (podEventCh
      (Update exampleStatusFns (Some \<lparr>Status = Some (exampleStatus (Some False))\<rparr>) startedManager)))) =
     (if status_Healthy (exampleStatus (Some False)) = Some True then ''HEALTH_STATE_HEALTHY''
      else ''HEALTH_STATE_UNHEALTHY'')"
    by blast
  from t [where st = "exampleStatus None"]
  have n: "Healthy (Event (last (podEventCh
      (Update exampleStatusFns (Some \<lparr>Status = Some (exampleStatus None)\<rparr>) startedManager)))) =
     (if status_Healthy (exampleStatus None) = Some True then ''HEALTH_STATE_HEALTHY''
      else ''HEALTH_STATE_UNHEALTHY'')"
    by blast
  have v: "status_AgentId (exampleStatus x) = Some ''agent-7''" "status_Healthy (exampleStatus x) = x"
    for x by (simp_all add: exampleStatus_def)
  show ?thesis
    unfolding a h f n v by simp
qed

subsection \<open>Claim C9: no acknowledgement worker is started\<close>

lemma start_spawns:
  "length (ackWorkers (Start m)) = length (ackWorkers m) + nat (updateAckConcurrency m)"
  by (simp add: Start_def startAsyncProcessTaskUpdates_def)

lemma no_worker_step:
  "ackWorkers m = [] \<Longrightarrow> ack_step fid a m = m \<or>
     (\<exists>e. a = DoAckPodEvent e \<and> length (ackChannel m) < mesosTaskUpdateAckChanSize \<and>
          ack_step fid a m = m\<lparr>ackChannel := ackChannel m @ [e]\<rparr>)"
  by (cases a) (auto simp: AckPodEvent_def ackPodEventWorker_def)

lemma no_worker_run:
  "ackWorkers m = [] \<Longrightarrow>
     ack_run fid as m =
       m\<lparr>ackChannel := ackChannel m @
            take (mesosTaskUpdateAckChanSize - length (ackChannel m)) (pushed as)\<rparr>"
  unfolding ack_run_def
proof (induction as arbitrary: m)
  case Nil
  then show ?case by simp
next
  case (Cons a as)
  show ?case
  proof (cases a)
    case (DoWorker i)
    then have "ack_step fid a m = m" using Cons.prems by (simp add: ackPodEventWorker_def)
    with Cons.IH [OF Cons.prems] DoWorker show ?thesis by simp
  next
    case (DoAckPodEvent e)
    show ?thesis
    proof (cases "length (ackChannel m) < mesosTaskUpdateAckChanSize")
      case True
      let ?m1 = "m\<lparr>ackChannel := ackChannel m @ [e]\<rparr>"
      have s: "ack_step fid a m = ?m1" using True DoAckPodEvent by (simp add: AckPodEvent_def)
      have w: "ackWorkers ?m1 = []" using Cons.prems by simp
      from True obtain k where k: "mesosTaskUpdateAckChanSize - length (ackChannel m) = Suc k"
        by (cases "mesosTaskUpdateAckChanSize - length (ackChannel m)") auto
      then have k': "mesosTaskUpdateAckChanSize - length (ackChannel ?m1) = k" by simp
      show ?thesis using Cons.IH [OF w] s DoAckPodEvent k k' by simp
    next
      case False
      then have "ack_step fid a m = m" using DoAckPodEvent by (simp add: AckPodEvent_def)
      with Cons.IH [OF Cons.prems] False DoAckPodEvent show ?thesis by simp
    qed
  qed
qed

text \<open>
  C9. \<open>Start\<close> spawns exactly \<open>updateAckConcurrency\<close> ack workers;
  \<open>NewMesosManager\<close> leaves \<open>updateAckConcurrency\<close> at zero, so no ack worker is
  started, and whatever callers of \<open>AckPodEvent\<close> (and steps of workers, of which
  there are none) do afterwards, no \<open>ACKNOWLEDGE\<close> call is made and the events pushed
  stay in the 1000-slot channel: it holds the first 1000 of them, and every later
  \<open>AckPodEvent\<close> blocks.
\<close>

theorem no_ack_worker_started:
  "length (ackWorkers (Start m)) = length (ackWorkers m) + nat (updateAckConcurrency m) \<and>
   updateAckConcurrency (NewMesosManager ch :: ('i, 'r) MesosManager) = 0 \<and>
   ackWorkers (Start (NewMesosManager ch :: ('i, 'r) MesosManager)) = [] \<and>
   ackWorkers (ack_run fid as (Start (NewMesosManager ch :: ('i, 'r) MesosManager))) = [] \<and>
   sent (ack_run fid as (Start (NewMesosManager ch :: ('i, 'r) MesosManager))) = [] \<and>
   ackChannel (ack_run fid as (Start (NewMesosManager ch :: ('i, 'r) MesosManager))) =
     take mesosTaskUpdateAckChanSize (pushed as)"
proof -
  let ?m = "Start (NewMesosManager ch :: ('i, 'r) MesosManager)"
  have w: "ackWorkers ?m = []"
    by (simp add: Start_def startAsyncProcessTaskUpdates_def NewMesosManager_def)
  have c: "ackChannel ?m = []" and s: "sent ?m = []"
    by (simp_all add: Start_def startAsyncProcessTaskUpdates_def NewMesosManager_def)
  show ?thesis
    using no_worker_run [OF w, of fid as] w c s start_spawns [of m]
    by (simp add: NewMesosManager_def)
qed

subsection \<open>Claim C5: deduplication of acknowledgements\<close>


lemma ack_step_workers: "length (ackWorkers (ack_step fid a m)) = length (ackWorkers m)"
  by (cases a)
     (auto simp: AckPodEvent_def ackPodEventWorker_def split: ack_worker.splits list.splits)

lemma ack_run_workers: "length (ackWorkers (ack_run fid as m)) = length (ackWorkers m)"
  unfolding ack_run_def
  by (induction as arbitrary: m) (simp_all add: ack_step_workers)

lemma inFlight_length: "length (inFlight m) \<le> length (ackWorkers m)"
proof -
  have "length (concat (map (\<lambda>w. case w of InCall pe \<Rightarrow> [EventID pe] | _ \<Rightarrow> []) ws)) \<le> length ws"
    for ws :: "ack_worker list"
    by (induction ws) (auto split: ack_worker.splits)
  then show ?thesis by (simp add: inFlight_def)
qed

text \<open>
  With at most one worker at most one call is in flight, whatever the interleaving
  with the callers of \<open>AckPodEvent\<close>.
\<close>

lemma one_worker_in_flight:
  assumes "length (ackWorkers m) \<le> 1"
  shows "distinct (inFlight (ack_run fid as m))"
proof -
  have "length (inFlight (ack_run fid as m)) \<le> 1"
    using inFlight_length [of "ack_run fid as m"] assms by (simp add: ack_run_workers)
  then show ?thesis
    by (cases "inFlight (ack_run fid as m)") auto
qed











subsection \<open>Claim C4: LaunchPods\<close>

lemma buildTasks_agent:
  "buildTasks D agentID builder pods = Inr tasks \<Longrightarrow>
   length tasks = length pods \<and> list_all (\<lambda>t. task_AgentId t = agentID) tasks"
proof (induction pods arbitrary: builder tasks)
  case Nil
  then show ?case by simp
next
  case (Cons pod pods)
  then show ?case
    by (auto split: sum.splits prod.splits)
qed

lemma firstAgentId_single:
  assumes ne: "offers \<noteq> []" and ok: "bucket_ok offers"
    and same: "list_all (\<lambda>(_, offer). offer_AgentId offer = a) offers"
  shows "firstAgentId offers (map (\<lambda>(_, offer). offer_Id offer) offers) = a"
proof -
  from ne obtain k offer rest where o: "offers = (k, offer) # rest" by (cases offers) auto
  with ok have "k = offer_Id offer" by (simp add: bucket_ok_def)
  with o same show ?thesis by (simp add: firstAgentId_def)
qed

text \<open>
  C4 (as amended). \<open>LaunchPods\<close> fails with the no-offer error when the offer manager
  holds no offers for the host, issuing no call and leaving the manager as it is
  (first part). Otherwise, when every pod converts and builds into a launch task, it
  issues one \<open>ACCEPT\<close> call carrying all of the host's offer ids and one \<open>LAUNCH\<close>
  operation with one task per pod; the tasks all carry the agent id of the host's
  offers; when the call succeeds the entire offer bucket of the host is removed, and
  when it fails the error is returned and the offers stay (second part). When a pod
  fails to convert or build, that error is returned, no call is issued and the manager
  is unchanged (third part).
\<close>

theorem launch_pods:
  "(GetOffers hostname (offerManager m) = [] \<longrightarrow>
      LaunchPods D pods hostname m = (Inl (noOfferError hostname), m)) \<and>
   (GetOffers hostname (offerManager m) = offers \<and> offers \<noteq> [] \<and>
    buildTasks D (firstAgentId offers (map (\<lambda>(_, offer). offer_Id offer) offers))
      (NewBuilder D (concat (map (\<lambda>(_, offer). offer_Resources offer) offers))) pods = Inr tasks \<longrightarrow>
      (\<exists>msg. sent (snd (LaunchPods D pods hostname m)) = sent m @ [msg] \<and>
         Type msg = Call_ACCEPT \<and>
         Accept msg = Some \<lparr>OfferIds = map (\<lambda>(_, offer). offer_Id offer) offers,
                             Operations = [\<lparr>op_Type = Offer_Operation_LAUNCH, op_Launch = tasks\<rparr>]\<rparr> \<and>
         length tasks = length pods \<and>
         (bucket_ok offers \<and> list_all (\<lambda>(_, offer). offer_AgentId offer = a) offers \<longrightarrow>
            list_all (\<lambda>t. task_AgentId t = a) tasks) \<and>
         (case schedulerClient_Call D (GetMesosStreamID D) msg of
            None \<Rightarrow>
              fst (LaunchPods D pods hostname m) = Inr pods \<and>
              offerManager (snd (LaunchPods D pods hostname m)) =
                RemoveOfferForHost hostname (offerManager m) \<and>
              GetOffers hostname (offerManager (snd (LaunchPods D pods hostname m))) = []
          | Some err \<Rightarrow>
              fst (LaunchPods D pods hostname m) = Inl err \<and>
              offerManager (snd (LaunchPods D pods hostname m)) = offerManager m))) \<and>
   (GetOffers hostname (offerManager m) = offers \<and> offers \<noteq> [] \<and>
    buildTasks D (firstAgentId offers (map (\<lambda>(_, offer). offer_Id offer) offers))
      (NewBuilder D (concat (map (\<lambda>(_, offer). offer_Resources offer) offers))) pods = Inl err' \<longrightarrow>
      LaunchPods D pods hostname m = (Inl err', m))"
proof (intro conjI impI)
  assume "GetOffers hostname (offerManager m) = []"
  then show "LaunchPods D pods hostname m = (Inl (noOfferError hostname), m)"
    by (simp add: LaunchPods_def)
next
  let ?ids = "map (\<lambda>(_, offer). offer_Id offer) offers"
  let ?agent = "firstAgentId offers ?ids"
  assume h: "GetOffers hostname (offerManager m) = offers \<and> offers \<noteq> [] \<and>
    buildTasks D ?agent (NewBuilder D (concat (map (\<lambda>(_, offer). offer_Resources offer) offers))) pods = Inr tasks"
  let ?msg = "acceptCall (GetFrameworkID D) ?ids tasks"
  from h have bt: "buildTasks D ?agent
      (NewBuilder D (concat (map (\<lambda>(_, offer). offer_Resources offer) offers))) pods = Inr tasks"
    by blast
  have ag: "length tasks = length pods" "list_all (\<lambda>t. task_AgentId t = ?agent) tasks"
    using buildTasks_agent [OF bt] by simp_all
  have same: "bucket_ok offers \<and> list_all (\<lambda>(_, offer). offer_AgentId offer = a) offers \<longrightarrow>
            list_all (\<lambda>t. task_AgentId t = a) tasks"
    using firstAgentId_single [of offers a] h ag(2) by auto
  have call: "case schedulerClient_Call D (GetMesosStreamID D) ?msg of
            None \<Rightarrow>
              fst (LaunchPods D pods hostname m) = Inr pods \<and>
              offerManager (snd (LaunchPods D pods hostname m)) =
                RemoveOfferForHost hostname (offerManager m) \<and>
              GetOffers hostname (offerManager (snd (LaunchPods D pods hostname m))) = []
          | Some err \<Rightarrow>
              fst (LaunchPods D pods hostname m) = Inl err \<and>
              offerManager (snd (LaunchPods D pods hostname m)) = offerManager m"
    using h by (simp add: LaunchPods_def Let_def GetOffers_def RemoveOfferForHost_def
        split: option.splits)
  have snt: "sent (snd (LaunchPods D pods hostname m)) = sent m @ [?msg]"
    using h by (simp add: LaunchPods_def Let_def split: option.splits)
  have shape: "Type ?msg = Call_ACCEPT \<and>
         Accept ?msg = Some \<lparr>OfferIds = ?ids,
                             Operations = [\<lparr>op_Type = Offer_Operation_LAUNCH, op_Launch = tasks\<rparr>]\<rparr>"
    by (simp add: acceptCall_def)
  show "\<exists>msg. sent (snd (LaunchPods D pods hostname m)) = sent m @ [msg] \<and>
         Type msg = Call_ACCEPT \<and>
         Accept msg = Some \<lparr>OfferIds = ?ids,
                             Operations = [\<lparr>op_Type = Offer_Operation_LAUNCH, op_Launch = tasks\<rparr>]\<rparr> \<and>
         length tasks = length pods \<and>
         (bucket_ok offers \<and> list_all (\<lambda>(_, offer). offer_AgentId offer = a) offers \<longrightarrow>
            list_all (\<lambda>t. task_AgentId t = a) tasks) \<and>
         (case schedulerClient_Call D (GetMesosStreamID D) msg of
            None \<Rightarrow>
              fst (LaunchPods D pods hostname m) = Inr pods \<and>
              offerManager (snd (LaunchPods D pods hostname m)) =
                RemoveOfferForHost hostname (offerManager m) \<and>
              GetOffers hostname (offerManager (snd (LaunchPods D pods hostname m))) = []
          | Some err \<Rightarrow>
              fst (LaunchPods D pods hostname m) = Inl err \<and>
              offerManager (snd (LaunchPods D pods hostname m)) = offerManager m)"
    using snt shape ag(1) same call by blast
next
  assume "GetOffers hostname (offerManager m) = offers \<and> offers \<noteq> [] \<and>
    buildTasks D (firstAgentId offers (map (\<lambda>(_, offer). offer_Id offer) offers))
      (NewBuilder D (concat (map (\<lambda>(_, offer). offer_Resources offer) offers))) pods = Inl err'"
  then show "LaunchPods D pods hostname m = (Inl err', m)"
    by (simp add: LaunchPods_def Let_def)
qed

lemma example_offers: "GetOffers ''h1'' (offerManager exampleManager) = exampleOffers"
  "GetOffers ''h2'' (offerManager exampleManager) = []"
  by (simp_all add: exampleManager_def GetOffers_def NewMesosManager_def)

lemma example_ids: "map (\<lambda>(_, offer). offer_Id offer) exampleOffers = [''o1'', ''o2'']"
  by (simp add: exampleOffers_def)

lemma example_agent:
  "firstAgentId exampleOffers (map (\<lambda>(_, offer). offer_Id offer) exampleOffers) = Some ''agent-1''"
  by (simp add: exampleOffers_def firstAgentId_def)

lemma example_build_good:
  "buildTasks exampleFns (firstAgentId exampleOffers (map (\<lambda>(_, offer). offer_Id offer) exampleOffers))
     (NewBuilder exampleFns (concat (map (\<lambda>(_, offer). offer_Resources offer) exampleOffers))) goodPods =
   Inr exampleTasks"
  by (simp add: example_agent goodPods_def exampleTasks_def exampleFns_def
      convertPodSpecToLaunchableTask_def GetValue_def)

lemma example_build_bad:
  "buildTasks exampleFns (firstAgentId exampleOffers (map (\<lambda>(_, offer). offer_Id offer) exampleOffers))
     (NewBuilder exampleFns (concat (map (\<lambda>(_, offer). offer_Resources offer) exampleOffers))) badPods =
   Inl (CollaboratorError ''invalid pod spec'')"
  by (simp add: example_agent badPods_def exampleFns_def
      convertPodSpecToLaunchableTask_def GetValue_def)

lemma example_bucket:
  "exampleOffers \<noteq> []" "bucket_ok exampleOffers"
  "list_all (\<lambda>(_, offer). offer_AgentId offer = Some ''agent-1'') exampleOffers"
  by (simp_all add: exampleOffers_def bucket_ok_def)

text \<open>
  Witness for C4: a host without offers, a host with two offers of one agent and two
  pods that build, and the same host with a pod that does not convert.
\<close>

theorem launch_pods_witness:
  "GetOffers ''h2'' (offerManager exampleManager) = [] \<and>
   LaunchPods exampleFns goodPods ''h2'' exampleManager = (Inl (noOfferError ''h2''), exampleManager) \<and>
   GetOffers ''h1'' (offerManager exampleManager) = exampleOffers \<and> exampleOffers \<noteq> [] \<and>
   bucket_ok exampleOffers \<and>
   list_all (\<lambda>(_, offer). offer_AgentId offer = Some ''agent-1'') exampleOffers \<and>
   (\<exists>msg. sent (snd (LaunchPods exampleFns goodPods ''h1'' exampleManager)) = sent exampleManager @ [msg] \<and>
      Type msg = Call_ACCEPT \<and>
      Accept msg = Some \<lparr>OfferIds = [''o1'', ''o2''],
                          Operations = [\<lparr>op_Type = Offer_Operation_LAUNCH, op_Launch = exampleTasks\<rparr>]\<rparr>) \<and>
   list_all (\<lambda>t. task_AgentId t = Some ''agent-1'') exampleTasks \<and>
   fst (LaunchPods exampleFns goodPods ''h1'' exampleManager) = Inr goodPods \<and>
   GetOffers ''h1'' (offerManager (snd (LaunchPods exampleFns goodPods ''h1'' exampleManager))) = [] \<and>
   LaunchPods exampleFns badPods ''h1'' exampleManager =
     (Inl (CollaboratorError ''invalid pod spec''), exampleManager)"
proof -
  note t = launch_pods [where D = exampleFns and m = exampleManager and offers = exampleOffers
      and a = "Some ''agent-1''"]
  have a: "LaunchPods exampleFns goodPods ''h2'' exampleManager = (Inl (noOfferError ''h2''), exampleManager)"
    using t [of "''h2''" goodPods] example_offers(2) by blast
  have c: "LaunchPods exampleFns badPods ''h1'' exampleManager =
     (Inl (CollaboratorError ''invalid pod spec''), exampleManager)"
    using t [of "''h1''" badPods _ "CollaboratorError ''invalid pod spec''"]
      example_offers(1) example_bucket(1) example_build_bad by blast
  have call: "schedulerClient_Call exampleFns (GetMesosStreamID exampleFns) msg = None" for msg
    by (simp add: exampleFns_def)
  from t [of "''h1''" goodPods exampleTasks] example_offers(1) example_bucket example_build_good
  obtain msg where
    b1: "sent (snd (LaunchPods exampleFns goodPods ''h1'' exampleManager)) = sent exampleManager @ [msg]"
    and b2: "Type msg = Call_ACCEPT"
    and b3: "Accept msg = Some \<lparr>OfferIds = map (\<lambda>(_, offer). offer_Id offer) exampleOffers,
                          Operations = [\<lparr>op_Type = Offer_Operation_LAUNCH, op_Launch = exampleTasks\<rparr>]\<rparr>"
    and b4: "list_all (\<lambda>t. task_AgentId t = Some ''agent-1'') exampleTasks"
    and b5: "case schedulerClient_Call exampleFns (GetMesosStreamID exampleFns) msg of
            None \<Rightarrow>
              fst (LaunchPods exampleFns goodPods ''h1'' exampleManager) = Inr goodPods \<and>
              offerManager (snd (LaunchPods exampleFns goodPods ''h1'' exampleManager)) =
                RemoveOfferForHost ''h1'' (offerManager exampleManager) \<and>
              GetOffers ''h1'' (offerManager (snd (LaunchPods exampleFns goodPods ''h1'' exampleManager))) = []
          | Some err \<Rightarrow>
              fst (LaunchPods exampleFns goodPods ''h1'' exampleManager) = Inl err \<and>
              offerManager (snd (LaunchPods exampleFns goodPods ''h1'' exampleManager)) = offerManager exampleManager"
    by blast
  from b5 [unfolded call option.case]
  have b6: "fst (LaunchPods exampleFns goodPods ''h1'' exampleManager) = Inr goodPods"
    and b7: "GetOffers ''h1'' (offerManager (snd (LaunchPods exampleFns goodPods ''h1'' exampleManager))) = []"
    by blast+
  show ?thesis
    using a c b1 b2 b3 [unfolded example_ids] b4 b6 b7 example_offers example_bucket by blast
qed

text \<open>
  Counterexample to C4 as stated: the host has offers, the second pod's spec does not
  convert; \<open>LaunchPods\<close> returns the conversion error and issues no \<open>ACCEPT\<close> call.
\<close>

theorem launch_pods_counterexample:
  "GetOffers ''h1'' (offerManager exampleManager) \<noteq> [] \<and>
   fst (LaunchPods exampleFns badPods ''h1'' exampleManager) = Inl (CollaboratorError ''invalid pod spec'') \<and>
   sent (snd (LaunchPods exampleFns badPods ''h1'' exampleManager)) = [] \<and>
   offerManager (snd (LaunchPods exampleFns badPods ''h1'' exampleManager)) = offerManager exampleManager"
  using example_build_bad example_bucket(1)
  by (simp add: LaunchPods_def Let_def example_offers)
     (simp add: exampleManager_def NewMesosManager_def)

section \<open>Proofs: goal-state engine\<close>

lemma EngineEnqueue_deadline:
  "deadlineQueue (EngineEnqueue ent t e) (GetID ent) =
     Some (case deadlineQueue e (GetID ent) of None \<Rightarrow> t | Some d0 \<Rightarrow> min d0 t)"
  by (auto simp: EngineEnqueue_def Schedule_def Let_def min_def split: option.splits)

lemma EngineEnqueue_registered: "entityMap (EngineEnqueue ent t e) (GetID ent) \<noteq> None"
  by (auto simp: EngineEnqueue_def Let_def split: option.splits)

lemma EngineEnqueue_idem: "EngineEnqueue ent t (EngineEnqueue ent t e) = EngineEnqueue ent t e"
proof -
  let ?e1 = "EngineEnqueue ent t e"
  obtain d where d: "deadlineQueue ?e1 (GetID ent) = Some d" and le: "d \<le> t"
    using EngineEnqueue_deadline [of ent t e] by (auto split: option.splits)
  obtain item where i: "entityMap ?e1 (GetID ent) = Some item"
    using EngineEnqueue_registered [of ent t e] by auto
  show ?thesis
    by (subst EngineEnqueue_def) (simp add: d le i Let_def)
qed

subsection \<open>Claim C2: Enqueue keeps the earliest deadline\<close>

text \<open>
  C2. For every entity \<open>e\<close> and instants \<open>t1\<close>, \<open>t2\<close>, \<open>Enqueue(e, t1)\<close> followed by
  \<open>Enqueue(e, t2)\<close> schedules \<open>e\<close>'s next evaluation no later than \<open>min(t1, t2)\<close>: an
  earlier deadline already scheduled is kept and a later one is tightened to the new
  one (the resulting deadline is the minimum of the old and the new ones); \<open>Enqueue\<close>
  is idempotent, and the entity is registered and scheduled afterwards.
\<close>

theorem enqueue_min_deadline:
  "deadlineQueue (EngineEnqueue ent t2 (EngineEnqueue ent t1 e)) (GetID ent) =
     Some (case deadlineQueue e (GetID ent) of None \<Rightarrow> min t1 t2 | Some d0 \<Rightarrow> min d0 (min t1 t2)) \<and>
   (\<exists>d. deadlineQueue (EngineEnqueue ent t2 (EngineEnqueue ent t1 e)) (GetID ent) = Some d \<and>
        d \<le> min t1 t2) \<and>
   deadlineQueue (EngineEnqueue ent t e) (GetID ent) =
     Some (case deadlineQueue e (GetID ent) of None \<Rightarrow> t | Some d0 \<Rightarrow> min d0 t) \<and>
   EngineEnqueue ent t (EngineEnqueue ent t e) = EngineEnqueue ent t e \<and>
   IsScheduled ent (EngineEnqueue ent t e) \<and>
   entityMap (EngineEnqueue ent t e) (GetID ent) \<noteq> None"
proof -
  have two: "deadlineQueue (EngineEnqueue ent t2 (EngineEnqueue ent t1 e)) (GetID ent) =
     Some (case deadlineQueue e (GetID ent) of None \<Rightarrow> min t1 t2 | Some d0 \<Rightarrow> min d0 (min t1 t2))"
    by (simp add: EngineEnqueue_deadline min.assoc split: option.splits)
  then have "\<exists>d. deadlineQueue (EngineEnqueue ent t2 (EngineEnqueue ent t1 e)) (GetID ent) = Some d \<and>
        d \<le> min t1 t2"
    by (auto split: option.splits)
  with two show ?thesis
    by (simp add: EngineEnqueue_deadline EngineEnqueue_idem EngineEnqueue_registered IsScheduled_def)
qed

text \<open>
  The deadlines of \<open>TestMultiRequeue\<close>: 30 s, then 60 s (the earlier one is kept), then
  now (the deadline is tightened).
\<close>

theorem enqueue_min_deadline_witness:
  "deadlineQueue (EngineEnqueue (newTestEntity ''0'' ''init'' ''success'') 0
       (EngineEnqueue (newTestEntity ''0'' ''init'' ''success'') 60000000000
          (EngineEnqueue (newTestEntity ''0'' ''init'' ''success'') 30000000000 testEngine))) ''0'' = Some 0 \<and>
   deadlineQueue (EngineEnqueue (newTestEntity ''0'' ''init'' ''success'') 60000000000
          (EngineEnqueue (newTestEntity ''0'' ''init'' ''success'') 30000000000 testEngine)) ''0'' =
     Some 30000000000"
proof -
  let ?ent = "newTestEntity ''0'' ''init'' ''success''"
  have i: "GetID ?ent = ''0''" by (simp add: newTestEntity_def)
  have q: "deadlineQueue testEngine ''0'' = None" by (simp add: testEngine_def)
  have a: "deadlineQueue (EngineEnqueue ?ent 60000000000 (EngineEnqueue ?ent 30000000000 testEngine)) ''0'' =
     Some 30000000000"
    using enqueue_min_deadline [where ent = ?ent and ?t2.0 = 60000000000 and ?t1.0 = 30000000000
        and e = testEngine]
    by (simp add: i q)
  have b: "deadlineQueue (EngineEnqueue ?ent 0
       (EngineEnqueue ?ent 60000000000 (EngineEnqueue ?ent 30000000000 testEngine))) ''0'' = Some 0"
    using enqueue_min_deadline [where ent = ?ent and t = 0
        and e = "EngineEnqueue ?ent 60000000000 (EngineEnqueue ?ent 30000000000 testEngine)"] a
    by (simp add: i)
  from a b show ?thesis by simp
qed

subsection \<open>Claim C1: backoff on failure, reset on success\<close>

text \<open>
  C1. For every registered entity whose action list run fails, the engine sets the
  entity's delay to \<open>min(max(delay\<cdot>2, failureRetryDelay), maxRetryDelay)\<close> and
  reschedules it at \<open>now + delay\<close>; for every run in which all actions return no
  error, the delay is reset to 0 (and the engine does not reschedule the entity).
\<close>

theorem backoff_on_failure:
  assumes "entityMap e ident = Some item"
    and "GetActionList (entity item) (GetState (entity item)) (GetGoalState (entity item)) = actions"
  shows
    "(\<forall>err w'. runActions actions ident w = (Some err, w') \<longrightarrow>
        delayOf ident (fst (runActionList ident now e w)) =
          Some (min (max (delay item * 2) (failureRetryDelay e)) (maxRetryDelay e)) \<and>
        deadlineQueue (fst (runActionList ident now e w)) ident =
          Some (now + min (max (delay item * 2) (failureRetryDelay e)) (maxRetryDelay e)) \<and>
        snd (runActionList ident now e w) = w') \<and>
     (\<forall>w'. runActions actions ident w = (None, w') \<longrightarrow>
        delayOf ident (fst (runActionList ident now e w)) = Some 0 \<and>
        deadlineQueue (fst (runActionList ident now e w)) ident = None \<and>
        snd (runActionList ident now e w) = w')"
proof (intro conjI allI impI)
  fix err w'
  assume r: "runActions actions ident w = (Some err, w')"
  then have ne: "actions \<noteq> []" by auto
  let ?d = "min (max (delay item * 2) (failureRetryDelay e)) (maxRetryDelay e)"
  have run: "runActionList ident now e w =
      (e\<lparr>deadlineQueue := Cancel ident (deadlineQueue e),
          entityMap := (entityMap e)(ident \<mapsto> item\<lparr>delay := ?d\<rparr>),
          deadlineQueue := Schedule ident (now + ?d) (Cancel ident (deadlineQueue e))\<rparr>, w')"
    using assms r ne by (simp add: runActionList_def Let_def backoff_def)
  show "delayOf ident (fst (runActionList ident now e w)) = Some ?d"
    by (simp add: run delayOf_def)
  show "deadlineQueue (fst (runActionList ident now e w)) ident = Some (now + ?d)"
    by (simp add: run Schedule_def)
  show "snd (runActionList ident now e w) = w'" by (simp add: run)
next
  fix w'
  assume r: "runActions actions ident w = (None, w')"
  have run: "runActionList ident now e w =
      (e\<lparr>deadlineQueue := Cancel ident (deadlineQueue e),
          entityMap := (entityMap e)(ident \<mapsto> item\<lparr>delay := 0\<rparr>)\<rparr>, w')"
    using assms r by (cases "actions = []") (auto simp: runActionList_def Let_def)
  show "delayOf ident (fst (runActionList ident now e w)) = Some 0"
    by (simp add: run delayOf_def)
  show "deadlineQueue (fst (runActionList ident now e w)) ident = None"
    by (simp add: run Cancel_def)
  show "snd (runActionList ident now e w) = w'" by (simp add: run)
qed

lemma failingEngine_eval:
  "failingEngine = testEngine\<lparr>entityMap := [''0'' \<mapsto> \<lparr>entity = failingEntity, delay = 0\<rparr>],
                              deadlineQueue := [''0'' \<mapsto> 0]\<rparr>"
  by (simp add: failingEngine_def EngineEnqueue_def testEngine_def failingEntity_def
      newTestEntity_def Schedule_def)

lemma failingEntity_actions:
  "GetActionList failingEntity (GetState failingEntity) (GetGoalState failingEntity) = [testActionFailure]"
  by (simp add: failingEntity_def newTestEntity_def testGetActionList_def)

text \<open>
  Witness for C1: the entity of \<open>TestEngineEnqueueDequeueFailure\<close>, at its first
  failure and at the run that succeeds.
\<close>

theorem backoff_on_failure_witness:
  "entityMap failingEngine ''0'' = Some \<lparr>entity = failingEntity, delay = 0\<rparr> \<and>
   GetActionList failingEntity (GetState failingEntity) (GetGoalState failingEntity) = [testActionFailure] \<and>
   runActions [testActionFailure] ''0'' \<lparr>idList = [], failCount = 0\<rparr> =
     (Some (ActionError ''fake error''), \<lparr>idList = [''0''], failCount = 1\<rparr>) \<and>
   delayOf ''0'' (fst (runActionList ''0'' 5 failingEngine \<lparr>idList = [], failCount = 0\<rparr>)) = Some 100000000 \<and>
   deadlineQueue (fst (runActionList ''0'' 5 failingEngine \<lparr>idList = [], failCount = 0\<rparr>)) ''0'' =
     Some 100000005 \<and>
   runActions [testActionFailure] ''0'' \<lparr>idList = [], failCount = 3\<rparr> =
     (None, \<lparr>idList = [''0''], failCount = 0\<rparr>) \<and>
   delayOf ''0'' (fst (runActionList ''0'' 5 failingEngine \<lparr>idList = [], failCount = 3\<rparr>)) = Some 0"
proof -
  have m: "entityMap failingEngine ''0'' = Some \<lparr>entity = failingEntity, delay = 0\<rparr>"
    by (simp add: failingEngine_eval)
  have a: "GetActionList (entity \<lparr>entity = failingEntity, delay = 0\<rparr>)
             (GetState (entity \<lparr>entity = failingEntity, delay = 0\<rparr>))
             (GetGoalState (entity \<lparr>entity = failingEntity, delay = 0\<rparr>)) = [testActionFailure]"
    by (simp add: failingEntity_actions)
  have f: "runActions [testActionFailure] ''0'' \<lparr>idList = [], failCount = 0\<rparr> =
     (Some (ActionError ''fake error''), \<lparr>idList = [''0''], failCount = 1\<rparr>)"
    by (simp add: testActionFailure_def)
  have s: "runActions [testActionFailure] ''0'' \<lparr>idList = [], failCount = 3\<rparr> =
     (None, \<lparr>idList = [''0''], failCount = 0\<rparr>)"
    by (simp add: testActionFailure_def)
  have lim: "failureRetryDelay failingEngine = 100000000" "maxRetryDelay failingEngine = 200000000"
    by (simp_all add: failingEngine_eval testEngine_def)
  note t = backoff_on_failure [OF m a, where now = 5]
  have d1: "delayOf ''0'' (fst (runActionList ''0'' 5 failingEngine \<lparr>idList = [], failCount = 0\<rparr>)) =
      Some 100000000"
    and d2: "deadlineQueue (fst (runActionList ''0'' 5 failingEngine \<lparr>idList = [], failCount = 0\<rparr>)) ''0'' =
      Some 100000005"
    using t [where w = "\<lparr>idList = [], failCount = 0\<rparr>"] f by (simp_all add: lim)
  have d3: "delayOf ''0'' (fst (runActionList ''0'' 5 failingEngine \<lparr>idList = [], failCount = 3\<rparr>)) = Some 0"
    using t [where w = "\<lparr>idList = [], failCount = 3\<rparr>"] s by simp
  from m failingEntity_actions f s d1 d2 d3 show ?thesis by simp
qed

text \<open>
  The scenario of \<open>TestEngineEnqueueDequeueFailure\<close> for one entity: three failed runs
  and one that succeeds; the delays are 100 ms, 200 ms, 200 ms and 0, and the action
  ran four times.
\<close>

lemma test_failure_scenario:
  "(let w0 = \<lparr>idList = [], failCount = 0\<rparr>;
        (e1, w1) = runActionList ''0'' 10 failingEngine w0;
        (e2, w2) = runActionList ''0'' 20 e1 w1;
        (e3, w3) = runActionList ''0'' 30 e2 w2;
        (e4, w4) = runActionList ''0'' 40 e3 w3
    in [delayOf ''0'' e1, delayOf ''0'' e2, delayOf ''0'' e3, delayOf ''0'' e4] =
         [Some 100000000, Some 200000000, Some 200000000, Some 0] \<and>
       idList w4 = [''0'', ''0'', ''0'', ''0''] \<and> \<not> IsScheduled failingEntity e4 \<and>
       entityMap e4 ''0'' \<noteq> None)"
  by (simp add: failingEngine_eval runActionList_def failingEntity_actions testActionFailure_def
      backoff_def testEngine_def delayOf_def Schedule_def Cancel_def IsScheduled_def
      failingEntity_def newTestEntity_def testGetActionList_def)

end
